theory Spec2Isabelle
  imports Main "HOL-Library.AList" "HOL-Library.Code_Target_Numeral"
begin

section \<open>Parsed JSON values and the JavaScript operations the script applies to them\<close>

text \<open>
  The script \<^verbatim>\<open>scripts/generate-report.js\<close> works on values returned by
  \<^verbatim>\<open>JSON.parse\<close>. Such a value is \<^verbatim>\<open>null\<close>, a boolean, a number, a string,
  an array or a plain object whose own properties are the members of the JSON text.

  Scope of the model:
  \<^item> numbers are the integer-valued ones (finding counts, totals), printed in decimal as
    \<^verbatim>\<open>String(n)\<close> prints an integer of magnitude below \<open>10^21\<close>; negative zero behaves as \<open>0\<close>
    in every operation used here;
  \<^item> strings are \<^typ>\<open>string\<close>: the bytes of the text in UTF-8, so that a character
    below 128 is an ASCII character and every other character of the text is a sequence
    of bytes from 128 on; the script compares and searches strings only for ASCII texts;
  \<^item> an object is the list of its own properties in insertion order, with distinct keys;
    \<^verbatim>\<open>undefined\<close> (a missing property) is \<^term>\<open>None\<close>.
\<close>

datatype json =
    JNull
  | JBool bool
  | JNum int
  | JStr string
  | JArr "json list"
  | JObj "(string \<times> json) list"

datatype js_error = TypeError string | RangeError string

text \<open>
  Two facts about the JavaScript engine that the script depends on and that its source
  does not fix are parameters of the model:
  \<^item> \<open>unicode_upper\<close>: what \<^verbatim>\<open>String.prototype.toUpperCase\<close> returns for a text with
    characters outside ASCII (for instance, dotless \<open>i\<close> becomes \<open>I\<close> and sharp \<open>s\<close> becomes
    \<open>SS\<close>);
  \<^item> \<open>stack_depth\<close>: how many levels of nested arrays \<^verbatim>\<open>String(v)\<close> can descend
    before the call stack is exhausted and a \<^verbatim>\<open>RangeError\<close> is thrown.
\<close>

record js_engine =
  unicode_upper :: "string \<Rightarrow> string"
  stack_depth :: nat

text \<open>
  Property read \<^verbatim>\<open>v.k\<close> for the property names the script uses (\<^verbatim>\<open>Results\<close>,
  \<^verbatim>\<open>Vulnerabilities\<close>, \<^verbatim>\<open>Severity\<close>, \<^verbatim>\<open>level\<close>, \<^verbatim>\<open>details\<close>, \<^verbatim>\<open>findings\<close>, \<^verbatim>\<open>Leaks\<close>,
  \<^verbatim>\<open>leaks\<close>, \<^verbatim>\<open>results\<close>, \<^verbatim>\<open>total\<close>): none of them is inherited from a prototype, so
  only an own property of an object is found. The script guards every read so that it is
  never applied to \<^verbatim>\<open>null\<close>.
\<close>

fun Get :: "json \<Rightarrow> string \<Rightarrow> json option" where
  "Get (JObj kvs) k = map_of kvs k"
| "Get _ k = None"

text \<open>Truthiness of a value (\<^verbatim>\<open>ToBoolean\<close>), and of a possibly missing property.\<close>

fun ToBoolean :: "json \<Rightarrow> bool" where
  "ToBoolean JNull = False"
| "ToBoolean (JBool b) = b"
| "ToBoolean (JNum n) = (n \<noteq> 0)"
| "ToBoolean (JStr s) = (s \<noteq> [])"
| "ToBoolean (JArr xs) = True"
| "ToBoolean (JObj kvs) = True"

fun truthy :: "json option \<Rightarrow> bool" where
  "truthy None = False"
| "truthy (Some v) = ToBoolean v"

text \<open>
  \<^verbatim>\<open>Array.isArray(x)\<close> with the elements of \<open>x\<close>, \<^verbatim>\<open>typeof x === 'number'\<close> with the
  number, and \<^verbatim>\<open>typeof x === 'object'\<close> (which holds of \<^verbatim>\<open>null\<close>, arrays and objects).
\<close>

fun array_of :: "json option \<Rightarrow> json list option" where
  "array_of (Some (JArr xs)) = Some xs"
| "array_of _ = None"

fun number_of :: "json option \<Rightarrow> int option" where
  "number_of (Some (JNum n)) = Some n"
| "number_of _ = None"

fun typeof_object :: "json \<Rightarrow> bool" where
  "typeof_object JNull = True"
| "typeof_object (JArr xs) = True"
| "typeof_object (JObj kvs) = True"
| "typeof_object _ = False"

text \<open>Decimal printing of a number.\<close>

definition digit_char :: "nat \<Rightarrow> char" where
  "digit_char n = ''0123456789'' ! (n mod 10)"

function digits :: "nat \<Rightarrow> string" where
  "digits n = (if n < 10 then [digit_char n] else digits (n div 10) @ [digit_char n])"
  by pat_completeness auto
termination
  by (relation "measure id") auto

declare digits.simps [simp del]

definition number_to_string :: "int \<Rightarrow> string" where
  "number_to_string n = (if n < 0 then CHR ''-'' # digits (nat (- n)) else digits (nat n))"

text \<open>
  \<^verbatim>\<open>String(v)\<close>, with the number of array levels it may still descend. An array prints
  its elements joined by commas, \<^verbatim>\<open>null\<close> elements as the empty string; each level of
  nesting is a nested call, and at depth \<open>0\<close> the call stack is exhausted. A plain object
  prints as \<^verbatim>\<open>[object Object]\<close> through
  \<^verbatim>\<open>Object.prototype.toString\<close>, unless it has an own property \<^verbatim>\<open>toString\<close>: a parsed
  JSON value is never callable, the conversion then finds no usable method and throws a
  \<^verbatim>\<open>TypeError\<close>.
\<close>

fun ToString :: "nat \<Rightarrow> json \<Rightarrow> js_error + string"
  and join_elements :: "nat \<Rightarrow> json list \<Rightarrow> js_error + string"
  and element_string :: "nat \<Rightarrow> json \<Rightarrow> js_error + string" where
  "ToString depth JNull = Inr ''null''"
| "ToString depth (JBool b) = Inr (if b then ''true'' else ''false'')"
| "ToString depth (JNum n) = Inr (number_to_string n)"
| "ToString depth (JStr s) = Inr s"
| "ToString depth (JArr xs) =
     (if depth = 0 then Inl (RangeError ''Maximum call stack size exceeded'')
      else join_elements (depth - 1) xs)"
| "ToString depth (JObj kvs) =
     (if ''toString'' \<in> fst ` set kvs
      then Inl (TypeError ''Cannot convert object to primitive value'')
      else Inr ''[object Object]'')"
| "join_elements depth [] = Inr []"
| "join_elements depth [x] = element_string depth x"
| "join_elements depth (x # y # ys) =
     (case element_string depth x of
        Inl e \<Rightarrow> Inl e
      | Inr s \<Rightarrow> (case join_elements depth (y # ys) of
                   Inl e \<Rightarrow> Inl e
                 | Inr rest \<Rightarrow> Inr (s @ '','' @ rest)))"
| "element_string depth JNull = Inr []"
| "element_string depth (JBool b) = ToString depth (JBool b)"
| "element_string depth (JNum n) = ToString depth (JNum n)"
| "element_string depth (JStr s) = ToString depth (JStr s)"
| "element_string depth (JArr xs) = ToString depth (JArr xs)"
| "element_string depth (JObj kvs) = ToString depth (JObj kvs)"

text \<open>
  \<^verbatim>\<open>s.toUpperCase()\<close>. On an ASCII text it maps \<open>a..z\<close> to \<open>A..Z\<close> and changes nothing
  else; a lower-case ASCII letter differs from its upper-case form in bit 5 (value 32)
  only. On a text with other characters it is the engine's Unicode mapping.
\<close>

fun is_ascii :: "char \<Rightarrow> bool" where
  "is_ascii (Char b0 b1 b2 b3 b4 b5 b6 b7) = (\<not> b7)"

fun to_upper :: "char \<Rightarrow> char" where
  "to_upper (Char b0 b1 b2 b3 b4 b5 b6 b7) =
     (if Char b0 b1 b2 b3 b4 b5 b6 b7 \<in> set ''abcdefghijklmnopqrstuvwxyz''
      then Char b0 b1 b2 b3 b4 False b6 b7
      else Char b0 b1 b2 b3 b4 b5 b6 b7)"

definition toUpperCase :: "js_engine \<Rightarrow> string \<Rightarrow> string" where
  "toUpperCase rt s = (if list_all is_ascii s then map to_upper s else unicode_upper rt s)"

text \<open>\<^verbatim>\<open>xs.join(sep)\<close> on an array of strings.\<close>

fun join :: "string \<Rightarrow> string list \<Rightarrow> string" where
  "join sep [] = []"
| "join sep [x] = x"
| "join sep (x # y # ys) = x @ sep @ join sep (y # ys)"

section \<open>Constants of the script\<close>

datatype status = PASS | FAIL

definition TRIVY_SEVERITIES :: "string list" where
  "TRIVY_SEVERITIES = [''CRITICAL'', ''HIGH'', ''MEDIUM'', ''LOW'', ''UNKNOWN'']"

section \<open>summarizeTrivyVulns\<close>

record trivy_summary =
  total :: nat
  counts :: "(string \<times> nat) list"

text \<open>
  \<^verbatim>\<open>counts[k] || 0\<close>: the count stored under a key, \<open>0\<close> when the key is missing.
\<close>

definition count_or_0 :: "(string \<times> nat) list \<Rightarrow> string \<Rightarrow> nat" where
  "count_or_0 cs k = (case map_of cs k of None \<Rightarrow> 0 | Some n \<Rightarrow> n)"

text \<open>
  The severity label under which one vulnerability entry is counted:
  \<^verbatim>\<open>vuln && vuln.Severity ? String(vuln.Severity).toUpperCase() : 'UNKNOWN'\<close>, replaced by
  \<^verbatim>\<open>UNKNOWN\<close> when it is not one of the five labels.
\<close>

definition severity_of :: "js_engine \<Rightarrow> json \<Rightarrow> js_error + string" where
  "severity_of rt vuln =
     (case Get vuln ''Severity'' of
        None \<Rightarrow> Inr ''UNKNOWN''
      | Some s \<Rightarrow>
          (if ToBoolean vuln \<and> ToBoolean s
           then (case ToString (stack_depth rt) s of
                   Inl e \<Rightarrow> Inl e
                 | Inr t \<Rightarrow> Inr (if toUpperCase rt t \<in> set TRIVY_SEVERITIES
                                 then toUpperCase rt t else ''UNKNOWN''))
           else Inr ''UNKNOWN''))"

text \<open>\<^verbatim>\<open>counts[sev] += 1\<close>; every label reaching it is a key of \<open>counts\<close>.\<close>

definition increment :: "(string \<times> nat) list \<Rightarrow> string \<Rightarrow> (string \<times> nat) list" where
  "increment cs sev = AList.update sev (count_or_0 cs sev + 1) cs"

fun count_vulnerabilities ::
  "js_engine \<Rightarrow> (string \<times> nat) list \<Rightarrow> json list \<Rightarrow> js_error + (string \<times> nat) list" where
  "count_vulnerabilities rt cs [] = Inr cs"
| "count_vulnerabilities rt cs (vuln # vulns) =
     (case severity_of rt vuln of
        Inl e \<Rightarrow> Inl e
      | Inr sev \<Rightarrow> count_vulnerabilities rt (increment cs sev) vulns)"

fun count_results ::
  "js_engine \<Rightarrow> (string \<times> nat) list \<Rightarrow> json list \<Rightarrow> js_error + (string \<times> nat) list" where
  "count_results rt cs [] = Inr cs"
| "count_results rt cs (result # results) =
     (if \<not> ToBoolean result then count_results rt cs results
      else (case array_of (Get result ''Vulnerabilities'') of
              None \<Rightarrow> count_results rt cs results
            | Some vulns \<Rightarrow>
                (case count_vulnerabilities rt cs vulns of
                   Inl e \<Rightarrow> Inl e
                 | Inr cs' \<Rightarrow> count_results rt cs' results)))"

definition summarizeTrivyVulns :: "js_engine \<Rightarrow> json \<Rightarrow> js_error + trivy_summary option" where
  "summarizeTrivyVulns rt data =
     (if \<not> ToBoolean data \<or> \<not> typeof_object data then Inr None
      else (case array_of (Get data ''Results'') of
              None \<Rightarrow> Inr None
            | Some results \<Rightarrow>
                (case count_results rt
                        [(''CRITICAL'', 0), (''HIGH'', 0), (''MEDIUM'', 0), (''LOW'', 0),
                         (''UNKNOWN'', 0)]
                        results of
                   Inl e \<Rightarrow> Inl e
                 | Inr cs \<Rightarrow>
                     Inr (Some \<lparr>total = foldl (\<lambda>acc sev. acc + count_or_0 cs sev) 0
                                           TRIVY_SEVERITIES,
                                counts = cs\<rparr>))))"

section \<open>summarizeDockleFindings\<close>

record dockle_summary =
  dockle_counts :: "(string \<times> nat) list"

text \<open>
  The closure \<^verbatim>\<open>bump\<close>. Its keys are upper-cased, so none of them names a property
  that the empty object literal inherits, and \<^verbatim>\<open>counts[key]\<close> reads an own property only.
\<close>

definition bump ::
  "js_engine \<Rightarrow> (string \<times> nat) list \<Rightarrow> json option \<Rightarrow> js_error + (string \<times> nat) list" where
  "bump rt cs level =
     (case level of
        None \<Rightarrow> Inr cs
      | Some l \<Rightarrow>
          (if \<not> ToBoolean l then Inr cs
           else (case ToString (stack_depth rt) l of
                   Inl e \<Rightarrow> Inl e
                 | Inr t \<Rightarrow> Inr (AList.update (toUpperCase rt t)
                                   (count_or_0 cs (toUpperCase rt t) + 1) cs))))"

text \<open>\<^verbatim>\<open>if (d && d.level) bump(d.level)\<close>\<close>

definition bump_level ::
  "js_engine \<Rightarrow> (string \<times> nat) list \<Rightarrow> json \<Rightarrow> js_error + (string \<times> nat) list" where
  "bump_level rt cs d =
     (if ToBoolean d \<and> truthy (Get d ''level'') then bump rt cs (Get d ''level'') else Inr cs)"

fun bump_details ::
  "js_engine \<Rightarrow> (string \<times> nat) list \<Rightarrow> json list \<Rightarrow> js_error + (string \<times> nat) list" where
  "bump_details rt cs [] = Inr cs"
| "bump_details rt cs (d # ds) =
     (case bump_level rt cs d of
        Inl e \<Rightarrow> Inl e
      | Inr cs' \<Rightarrow> bump_details rt cs' ds)"

fun bump_items ::
  "js_engine \<Rightarrow> (string \<times> nat) list \<Rightarrow> json list \<Rightarrow> js_error + (string \<times> nat) list" where
  "bump_items rt cs [] = Inr cs"
| "bump_items rt cs (item # items) =
     (case bump_level rt cs item of
        Inl e \<Rightarrow> Inl e
      | Inr cs1 \<Rightarrow>
          (if \<not> ToBoolean item then bump_items rt cs1 items
           else (case array_of (Get item ''details'') of
                   None \<Rightarrow> bump_items rt cs1 items
                 | Some ds \<Rightarrow>
                     (case bump_details rt cs1 ds of
                        Inl e \<Rightarrow> Inl e
                      | Inr cs2 \<Rightarrow> bump_items rt cs2 items))))"

text \<open>The two reads of the object branch: the \<^verbatim>\<open>details\<close> array, then the \<^verbatim>\<open>level\<close>.\<close>

definition bump_object :: "js_engine \<Rightarrow> json \<Rightarrow> js_error + (string \<times> nat) list" where
  "bump_object rt data =
     (case (case array_of (Get data ''details'') of
              Some ds \<Rightarrow> bump_details rt [] ds
            | None \<Rightarrow> Inr []) of
        Inl e \<Rightarrow> Inl e
      | Inr cs1 \<Rightarrow>
          (if truthy (Get data ''level'') then bump rt cs1 (Get data ''level'') else Inr cs1))"

text \<open>The end of the function, reached by the array and the object branch.\<close>

definition finish_counts :: "(string \<times> nat) list \<Rightarrow> dockle_summary" where
  "finish_counts cs =
     (if length (map fst cs) = 0 then \<lparr>dockle_counts = []\<rparr> else \<lparr>dockle_counts = cs\<rparr>)"

definition summarizeDockleFindings :: "js_engine \<Rightarrow> json \<Rightarrow> js_error + dockle_summary option" where
  "summarizeDockleFindings rt data =
     (case array_of (Some data) of
        Some items \<Rightarrow>
          (case bump_items rt [] items of
             Inl e \<Rightarrow> Inl e
           | Inr cs \<Rightarrow> Inr (Some (finish_counts cs)))
      | None \<Rightarrow>
          (if ToBoolean data \<and> typeof_object data then
             (case bump_object rt data of
                Inl e \<Rightarrow> Inl e
              | Inr cs \<Rightarrow> Inr (Some (finish_counts cs)))
           else Inr None))"

section \<open>inferGitleaksFindingCount\<close>

record finding_count =
  count :: "int option"
  count_error :: "string option"

definition unknown_structure :: finding_count where
  "unknown_structure =
     \<lparr>count = None,
      count_error = Some ''Unknown Gitleaks JSON structure (no findings array found)''\<rparr>"

definition counted :: "int \<Rightarrow> finding_count" where
  "counted n = \<lparr>count = Some n, count_error = None\<rparr>"

definition inferGitleaksFindingCount :: "json \<Rightarrow> finding_count" where
  "inferGitleaksFindingCount data =
     (case array_of (Some data) of
        Some xs \<Rightarrow> counted (int (length xs))
      | None \<Rightarrow>
          (if ToBoolean data \<and> typeof_object data then
             (case array_of (Get data ''findings'') of
                Some xs \<Rightarrow> counted (int (length xs))
              | None \<Rightarrow>
             (case array_of (Get data ''Leaks'') of
                Some xs \<Rightarrow> counted (int (length xs))
              | None \<Rightarrow>
             (case array_of (Get data ''leaks'') of
                Some xs \<Rightarrow> counted (int (length xs))
              | None \<Rightarrow>
             (case array_of (Get data ''results'') of
                Some xs \<Rightarrow> counted (int (length xs))
              | None \<Rightarrow>
             (case number_of (Get data ''total'') of
                Some n \<Rightarrow> counted n
              | None \<Rightarrow> unknown_structure)))))
           else unknown_structure))"

section \<open>Artifacts and the environment of a run\<close>

definition gitleaks_file :: string where "gitleaks_file = ''gitleaks.json''"
definition trivyFs_file :: string where "trivyFs_file = ''trivy-fs.json''"
definition trivyImage_file :: string where "trivyImage_file = ''trivy-image.json''"
definition dockle_file :: string where "dockle_file = ''dockle.json''"
definition sbom_file :: string where "sbom_file = ''sbom.json''"

record artifact =
  name :: string
  fullPath :: string
  found :: bool
  parsed :: bool
  data :: "json option"
  error :: "string option"

datatype io_error = IOError (code: string) (message: string)

text \<open>
  What a run reads from outside the script: the engine, the resolved artifact directory, the clock,
  the process environment, and the results of the calls into the Node.js library
  (\<^verbatim>\<open>path.join\<close>, \<^verbatim>\<open>fs.promises.mkdir\<close>, \<^verbatim>\<open>readFile\<close>, \<^verbatim>\<open>writeFile\<close> and
  \<^verbatim>\<open>JSON.parse\<close>). A failing call gives its error (for \<^verbatim>\<open>JSON.parse\<close>, the message of
  the \<^verbatim>\<open>SyntaxError\<close>).
\<close>

record env =
  engine :: js_engine
  ARTIFACT_DIR :: string
  path_join :: "string \<Rightarrow> string \<Rightarrow> string"
  now_ISO :: string
  process_env :: "string \<Rightarrow> string option"
  mkdir :: "string \<Rightarrow> io_error option"
  readFile :: "string \<Rightarrow> io_error + string"
  JSON_parse :: "string \<Rightarrow> string + json"
  writeFile :: "string \<Rightarrow> string \<Rightarrow> io_error option"

definition readJsonArtifact :: "env \<Rightarrow> string \<Rightarrow> artifact" where
  "readJsonArtifact e fileName =
     (let result = \<lparr>name = fileName, fullPath = path_join e (ARTIFACT_DIR e) fileName,
                     found = False, parsed = False, data = None, error = None\<rparr>
      in case readFile e (fullPath result) of
           Inr content \<Rightarrow>
             (case JSON_parse e content of
                Inr v \<Rightarrow> result\<lparr>found := True, data := Some v, parsed := True\<rparr>
              | Inl msg \<Rightarrow> result\<lparr>found := True, error := Some (''Invalid JSON: '' @ msg)\<rparr>)
         | Inl err \<Rightarrow>
             (if code err = ''ENOENT''
              then result\<lparr>error := Some ''File not found''\<rparr>
              else result\<lparr>found := True, error := Some (''Read error: '' @ message err)\<rparr>))"

text \<open>
  The value of \<^verbatim>\<open>artifact.data\<close> (\<^verbatim>\<open>null\<close> until a parse succeeded), and a string or
  \<^verbatim>\<open>null\<close> inside a template literal.
\<close>

definition data_value :: "artifact \<Rightarrow> json" where
  "data_value a = (case data a of None \<Rightarrow> JNull | Some v \<Rightarrow> v)"

definition string_or_null :: "string option \<Rightarrow> string" where
  "string_or_null s = (case s of None \<Rightarrow> ''null'' | Some t \<Rightarrow> t)"

section \<open>The control evaluators\<close>

record verdict =
  id' :: string
  status :: status
  details :: string

definition formatTrivySummary :: "string \<Rightarrow> trivy_summary \<Rightarrow> string" where
  "formatTrivySummary label summary =
     ''Trivy '' @ label @ '': total '' @ number_to_string (int (total summary)) @ '', '' @
     join '', '' (map (\<lambda>sev. sev @ '': '' @ number_to_string (int (count_or_0 (counts summary) sev)))
                      TRIVY_SEVERITIES)"

definition evaluateSec01 :: "artifact \<Rightarrow> verdict" where
  "evaluateSec01 gitleaksArtifact =
     (if \<not> found gitleaksArtifact then
        \<lparr>id' = ''SEC-01'', status = FAIL, details = gitleaks_file @ '' not found''\<rparr>
      else if \<not> parsed gitleaksArtifact then
        \<lparr>id' = ''SEC-01'', status = FAIL,
         details = gitleaks_file @ '' is not valid JSON ('' @
                   string_or_null (error gitleaksArtifact) @ '')''\<rparr>
      else
        (let r = inferGitleaksFindingCount (data_value gitleaksArtifact) in
         case count_error r of
           Some (c # cs) \<Rightarrow>
             \<lparr>id' = ''SEC-01'', status = FAIL,
              details = ''Unable to determine findings in '' @ gitleaks_file @ '': '' @ (c # cs)\<rparr>
         | _ \<Rightarrow>
             (case count r of
                Some n \<Rightarrow>
                  (if n > 0 then
                     \<lparr>id' = ''SEC-01'', status = FAIL,
                      details = ''Gitleaks detected '' @ number_to_string n @
                                '' potential secret(s)''\<rparr>
                   else
                     \<lparr>id' = ''SEC-01'', status = PASS,
                      details = ''No secrets detected by Gitleaks (0 findings)''\<rparr>)
              | None \<Rightarrow>
                  \<lparr>id' = ''SEC-01'', status = PASS,
                   details = ''No secrets detected by Gitleaks (0 findings)''\<rparr>)))"

text \<open>The message pushed for one scan file of SEC-02, if any.\<close>

definition coverage_issue :: "string \<Rightarrow> artifact \<Rightarrow> string list" where
  "coverage_issue file a =
     (if \<not> found a then [file @ '' not found'']
      else if \<not> parsed a then
        [file @ '' is not valid JSON ('' @ string_or_null (error a) @ '')'']
      else [])"

definition evaluateSec02 ::
  "artifact \<Rightarrow> artifact \<Rightarrow> trivy_summary option \<Rightarrow> trivy_summary option \<Rightarrow> verdict" where
  "evaluateSec02 trivyFsArtifact trivyImageArtifact fsSummary imageSummary =
     (let issues = coverage_issue trivyFs_file trivyFsArtifact @
                   coverage_issue trivyImage_file trivyImageArtifact
      in if length issues > 0 then
           \<lparr>id' = ''SEC-02'', status = FAIL, details = join ''; '' issues\<rparr>
         else
           (let fsSummaryText =
                  (case fsSummary of
                     Some s \<Rightarrow> formatTrivySummary ''FS'' s
                   | None \<Rightarrow> ''Trivy FS: summary unavailable (unexpected JSON structure)'');
                imageSummaryText =
                  (case imageSummary of
                     Some s \<Rightarrow> formatTrivySummary ''Image'' s
                   | None \<Rightarrow> ''Trivy image: summary unavailable (unexpected JSON structure)'')
            in \<lparr>id' = ''SEC-02'', status = PASS,
                details = trivyFs_file @ '' and '' @ trivyImage_file @
                          '' present and valid. '' @ fsSummaryText @ ''; '' @ imageSummaryText\<rparr>))"

text \<open>
  \<^verbatim>\<open>Object.entries(counts)\<close>: the keys that are array indices (canonical decimal numerals
  below \<open>2^32 - 1\<close>) come first, in ascending numeric order, then the other keys in
  insertion order.
\<close>

definition digits_value :: "string \<Rightarrow> nat" where
  "digits_value k = foldl (\<lambda>acc c. 10 * acc + (of_char c - 48)) 0 k"

definition is_array_index :: "string \<Rightarrow> bool" where
  "is_array_index k =
     (k \<noteq> [] \<and> list_all (\<lambda>c. c \<in> set ''0123456789'') k \<and>
      digits (digits_value k) = k \<and> digits_value k < 4294967295)"

definition Object_entries :: "(string \<times> nat) list \<Rightarrow> (string \<times> nat) list" where
  "Object_entries cs =
     sort_key (\<lambda>p. digits_value (fst p)) (filter (\<lambda>p. is_array_index (fst p)) cs) @
     filter (\<lambda>p. \<not> is_array_index (fst p)) cs"

text \<open>\<^verbatim>\<open>a || b\<close> on counts: \<open>a\<close> unless it is \<open>0\<close> (or missing, read as \<open>0\<close>).\<close>

definition js_or :: "nat \<Rightarrow> nat \<Rightarrow> nat" where
  "js_or a b = (if a \<noteq> 0 then a else b)"

definition evaluateSec03 :: "artifact \<Rightarrow> dockle_summary option \<Rightarrow> verdict" where
  "evaluateSec03 dockleArtifact dockleSummary =
     (if \<not> found dockleArtifact then
        \<lparr>id' = ''SEC-03'', status = FAIL, details = dockle_file @ '' not found''\<rparr>
      else if \<not> parsed dockleArtifact then
        \<lparr>id' = ''SEC-03'', status = FAIL,
         details = dockle_file @ '' is not valid JSON ('' @
                   string_or_null (error dockleArtifact) @ '')''\<rparr>
      else
        (case dockleSummary of
           None \<Rightarrow>
             \<lparr>id' = ''SEC-03'', status = PASS,
              details = dockle_file @
                '' present and valid (unable to infer finding levels; treating as informational)''\<rparr>
         | Some summary \<Rightarrow>
             (let cs = dockle_counts summary;
                  fatal = js_or (count_or_0 cs ''FATAL'') (js_or (count_or_0 cs ''FATL'') 0);
                  error = js_or (count_or_0 cs ''ERROR'') 0;
                  warn = js_or (count_or_0 cs ''WARN'') 0;
                  parts = join '', ''
                            (map (\<lambda>p. fst p @ '': '' @ number_to_string (int (snd p)))
                                 (filter (\<lambda>p. snd p > 0) (Object_entries cs)));
                  summaryText = (if parts = [] then ''no findings'' else parts)
              in if fatal > 0 \<or> error > 0 \<or> warn > 0 then
                   \<lparr>id' = ''SEC-03'', status = FAIL,
                    details = ''Dockle reported hardening issues ('' @ summaryText @ '')''\<rparr>
                 else
                   \<lparr>id' = ''SEC-03'', status = PASS,
                    details = ''Dockle scan clean ('' @ summaryText @ '')''\<rparr>)))"

definition evaluateSec04 ::
  "artifact \<Rightarrow> artifact \<Rightarrow> trivy_summary option \<Rightarrow> trivy_summary option \<Rightarrow> verdict" where
  "evaluateSec04 trivyFsArtifact trivyImageArtifact fsSummary imageSummary =
     (let problems =
            (if \<not> found trivyFsArtifact \<or> \<not> parsed trivyFsArtifact
             then [''Trivy FS scan missing or invalid''] else []) @
            (if \<not> found trivyImageArtifact \<or> \<not> parsed trivyImageArtifact
             then [''Trivy image scan missing or invalid''] else [])
      in if length problems > 0 then
           \<lparr>id' = ''SEC-04'', status = FAIL, details = join ''; '' problems\<rparr>
         else
           (case (fsSummary, imageSummary) of
              (Some fs, Some img) \<Rightarrow>
                (let fsCrit = js_or (count_or_0 (counts fs) ''CRITICAL'') 0;
                     imgCrit = js_or (count_or_0 (counts img) ''CRITICAL'') 0;
                     totalCrit = fsCrit + imgCrit;
                     fsText = formatTrivySummary ''FS'' fs;
                     imgText = formatTrivySummary ''Image'' img
                 in if totalCrit > 0 then
                      \<lparr>id' = ''SEC-04'', status = FAIL,
                       details = ''CRITICAL vulnerabilities detected. '' @ fsText @ ''; '' @ imgText\<rparr>
                    else
                      \<lparr>id' = ''SEC-04'', status = PASS,
                       details = ''No CRITICAL vulnerabilities in Trivy scans. '' @
                                 fsText @ ''; '' @ imgText\<rparr>)
            | _ \<Rightarrow>
                \<lparr>id' = ''SEC-04'', status = FAIL,
                 details = ''Unable to interpret Trivy JSON structure to count vulnerabilities''\<rparr>))"

definition evaluateSec05 :: "artifact \<Rightarrow> verdict" where
  "evaluateSec05 sbomArtifact =
     (if \<not> found sbomArtifact then
        \<lparr>id' = ''SEC-05'', status = FAIL, details = sbom_file @ '' not found''\<rparr>
      else if \<not> parsed sbomArtifact then
        \<lparr>id' = ''SEC-05'', status = FAIL,
         details = sbom_file @ '' is not valid JSON ('' @
                   string_or_null (error sbomArtifact) @ '')''\<rparr>
      else
        \<lparr>id' = ''SEC-05'', status = PASS,
         details = sbom_file @ '' present and valid (SBOM generated)''\<rparr>)"

section \<open>Overall status and rendering\<close>

definition computeOverallStatus :: "verdict list \<Rightarrow> status" where
  "computeOverallStatus controls =
     (if list_all (\<lambda>c. status c = PASS) controls then PASS else FAIL)"

definition escapeMarkdown :: "string \<Rightarrow> string" where
  "escapeMarkdown text = concat (map (\<lambda>c. if c = CHR ''|'' then [CHR 0x5C, CHR ''|''] else [c]) text)"

fun status_string :: "status \<Rightarrow> string" where
  "status_string PASS = ''PASS''"
| "status_string FAIL = ''FAIL''"

text \<open>\<^verbatim>\<open>process.env.X || d\<close>: an unset or empty variable gives the default.\<close>

definition env_or :: "(string \<Rightarrow> string option) \<Rightarrow> string \<Rightarrow> string \<Rightarrow> string" where
  "env_or penv x d = (case penv x of Some (c # cs) \<Rightarrow> c # cs | _ \<Rightarrow> d)"

text \<open>The table row pushed for one control.\<close>

definition table_row :: "verdict \<Rightarrow> string" where
  "table_row control =
     ''| '' @ id' control @ '' | '' @ status_string (status control) @ '' | '' @
     escapeMarkdown (details control) @ '' |''"

text \<open>The array \<^verbatim>\<open>lines\<close> that \<^verbatim>\<open>renderMarkdown\<close> builds and joins.\<close>

definition report_lines ::
  "(string \<Rightarrow> string option) \<Rightarrow> verdict list \<Rightarrow> status \<Rightarrow> string \<Rightarrow> string list" where
  "report_lines penv controls overallStatus timestamp =
     (let gitSha = env_or penv ''GITHUB_SHA'' ''n/a'';
          gitRef = env_or penv ''GITHUB_REF'' ''n/a'';
          repo = env_or penv ''GITHUB_REPOSITORY'' ''n/a'';
          runId = env_or penv ''GITHUB_RUN_ID'' [];
          serverUrl = env_or penv ''GITHUB_SERVER_URL'' ''https://github.com'';
          runUrl = (if runId \<noteq> [] \<and> repo \<noteq> []
                    then serverUrl @ ''/'' @ repo @ ''/actions/runs/'' @ runId
                    else ''n/a'');
          failingControls = filter (\<lambda>c. status c = FAIL) controls
      in [''# Compliance Report'',
          [],
          ''Generated at: '' @ [CHR 0x60] @ timestamp @ [CHR 0x60],
          [],
          ''## Pipeline Context'',
          [],
          ''- Commit: '' @ [CHR 0x60] @ gitSha @ [CHR 0x60],
          ''- Ref: '' @ [CHR 0x60] @ gitRef @ [CHR 0x60],
          ''- Repository: '' @ [CHR 0x60] @ repo @ [CHR 0x60],
          ''- Run URL: '' @ runUrl,
          [],
          ''## Control Summary'',
          [],
          ''| Control | Status | Details |'',
          ''|---------|--------|---------|''] @
         map table_row controls @
         [[],
          ''## Overall Status'',
          [],
          ''**'' @ status_string overallStatus @ ''**'',
          []] @
         (if length failingControls > 0
          then [''### Failing Controls'', []] @
               map (\<lambda>c. ''- '' @ id' c @ '': '' @ details c) failingControls @
               [[]]
          else []))"

definition renderMarkdown ::
  "(string \<Rightarrow> string option) \<Rightarrow> verdict list \<Rightarrow> status \<Rightarrow> string \<Rightarrow> string" where
  "renderMarkdown penv controls overallStatus timestamp =
     join [CHR 0x0A] (report_lines penv controls overallStatus timestamp)"

section \<open>The run: main and the process around it\<close>

definition ensureDir :: "env \<Rightarrow> string \<Rightarrow> string list" where
  "ensureDir e dirPath =
     (case mkdir e dirPath of
        None \<Rightarrow> []
      | Some err \<Rightarrow> [''WARNING: Failed to ensure directory '' @ dirPath @ '': '' @ message err])"

definition reportPath :: "env \<Rightarrow> string" where
  "reportPath e = path_join e (ARTIFACT_DIR e) ''compliance-report.md''"

text \<open>
  The first part of \<^verbatim>\<open>main\<close>: the five reads, the three summaries (each computed only
  for a parsed artifact) and the five evaluations. A \<^verbatim>\<open>TypeError\<close> thrown by a summarizer
  leaves \<^verbatim>\<open>main\<close> at once.
\<close>

definition evaluate_controls :: "env \<Rightarrow> js_error + verdict list" where
  "evaluate_controls e =
     (let gitleaks = readJsonArtifact e gitleaks_file;
          trivyFs = readJsonArtifact e trivyFs_file;
          trivyImage = readJsonArtifact e trivyImage_file;
          dockle = readJsonArtifact e dockle_file;
          sbom = readJsonArtifact e sbom_file
      in case (if parsed trivyFs then summarizeTrivyVulns (engine e) (data_value trivyFs) else Inr None) of
           Inl err \<Rightarrow> Inl err
         | Inr trivyFsSummary \<Rightarrow>
       (case (if parsed trivyImage then summarizeTrivyVulns (engine e) (data_value trivyImage)
              else Inr None) of
           Inl err \<Rightarrow> Inl err
         | Inr trivyImageSummary \<Rightarrow>
       (case (if parsed dockle then summarizeDockleFindings (engine e) (data_value dockle) else Inr None) of
           Inl err \<Rightarrow> Inl err
         | Inr dockleSummary \<Rightarrow>
             Inr [evaluateSec01 gitleaks,
                  evaluateSec02 trivyFs trivyImage trivyFsSummary trivyImageSummary,
                  evaluateSec03 dockle dockleSummary,
                  evaluateSec04 trivyFs trivyImage trivyFsSummary trivyImageSummary,
                  evaluateSec05 sbom])))"

text \<open>
  The local variables of \<^verbatim>\<open>main\<close> when it returns, with the lines it has logged
  through \<^verbatim>\<open>console.error\<close> (the warning of \<^verbatim>\<open>ensureDir\<close>, the error of a failed write).
\<close>

record run =
  allControlsForFile :: "verdict list"
  markdownContent :: string
  writeSucceeded :: bool
  allControlsForConsole :: "verdict list"
  finalOverallStatus :: status
  consoleMarkdown :: string
  logged :: "string list"
  exitCode_set :: bool

definition main :: "env \<Rightarrow> js_error + run" where
  "main e =
     (case evaluate_controls e of
        Inl err \<Rightarrow> Inl err
      | Inr controls \<Rightarrow>
          (let sec06Tentative =
                 \<lparr>id' = ''SEC-06'', status = PASS, details = ''Compliance report generated''\<rparr>;
               forFile = controls @ [sec06Tentative];
               content = renderMarkdown (process_env e) forFile (computeOverallStatus forFile)
                           (now_ISO e);
               written = writeFile e (reportPath e) content;
               sec06 =
                 (if written = None
                  then \<lparr>id' = ''SEC-06'', status = PASS,
                        details = ''Report generated at '' @ reportPath e\<rparr>
                  else \<lparr>id' = ''SEC-06'', status = FAIL,
                        details = ''Failed to generate report at '' @ reportPath e\<rparr>);
               forConsole = controls @ [sec06];
               final = computeOverallStatus forConsole
           in Inr \<lparr>allControlsForFile = forFile,
                   markdownContent = content,
                   writeSucceeded = (written = None),
                   allControlsForConsole = forConsole,
                   finalOverallStatus = final,
                   consoleMarkdown = renderMarkdown (process_env e) forConsole final (now_ISO e),
                   logged =
                     ensureDir e (ARTIFACT_DIR e) @
                     (case written of
                        None \<Rightarrow> []
                      | Some err \<Rightarrow>
                          [''ERROR: Failed to write compliance report to '' @ reportPath e @
                           '': '' @ message err]),
                   exitCode_set = (written \<noteq> None \<or> final = FAIL)\<rparr>))"

text \<open>
  The process: \<^verbatim>\<open>main().catch(...)\<close>. It leaves the report file (if the write
  succeeded), the two output streams and the exit status, which is \<open>0\<close> unless
  \<^verbatim>\<open>process.exitCode\<close> was set. When \<^verbatim>\<open>main\<close> throws, the handler logs the error
  after whatever \<^verbatim>\<open>ensureDir\<close> had logged, and sets the exit status to \<open>1\<close>.
\<close>

record process_result =
  report_file :: "(string \<times> string) option"
  stdout :: "string list"
  stderr :: "string list"
  exitCode :: nat

fun error_text :: "js_error \<Rightarrow> string" where
  "error_text (TypeError msg) = ''TypeError: '' @ msg"

definition script :: "env \<Rightarrow> process_result" where
  "script e =
     (case main e of
        Inl err \<Rightarrow>
          \<lparr>report_file = None,
           stdout = [],
           stderr = ensureDir e (ARTIFACT_DIR e) @
                    [''Unexpected error in generate-report.js: '' @ error_text err],
           exitCode = 1\<rparr>
      | Inr r \<Rightarrow>
          \<lparr>report_file =
             (if writeSucceeded r then Some (reportPath e, markdownContent r) else None),
           stdout = [[CHR 0x0A] @ ''=== Compliance Report ==='' @ [CHR 0x0A],
                     consoleMarkdown r,
                     [CHR 0x0A] @ ''=== End of Compliance Report ==='' @ [CHR 0x0A]],
           stderr = logged r,
           exitCode = (if exitCode_set r then 1 else 0)\<rparr>)"

section \<open>Notions used to state the properties\<close>


text \<open>
  The column delimiters of a table row: the \<open>|\<close> characters that are not immediately
  preceded by a backslash. The first argument is the character before the text.
\<close>

fun delimiters_after :: "char \<Rightarrow> string \<Rightarrow> nat" where
  "delimiters_after prev [] = 0"
| "delimiters_after prev (c # cs) =
     (if c = CHR ''|'' \<and> prev \<noteq> CHR 0x5C then 1 else 0) + delimiters_after c cs"

definition delimiters :: "string \<Rightarrow> nat" where
  "delimiters row = delimiters_after (CHR 0x0A) row"

text \<open>The lines of a text: its pieces between line feeds.\<close>

fun split_lines :: "string \<Rightarrow> string list" where
  "split_lines [] = [[]]"
| "split_lines (c # cs) =
     (if c = CHR 0x0A then [] # split_lines cs
      else (case split_lines cs of
              [] \<Rightarrow> [[c]]
            | l # ls \<Rightarrow> (c # l) # ls))"

text \<open>
  The final verdicts of a run, the document it prints and the document it leaves in
  the report file (nothing when \<^verbatim>\<open>main\<close> throws, no file when the write fails).
\<close>

definition console_verdicts :: "env \<Rightarrow> verdict list" where
  "console_verdicts e = (case main e of Inl err \<Rightarrow> [] | Inr r \<Rightarrow> allControlsForConsole r)"

definition console_text :: "env \<Rightarrow> string" where
  "console_text e = (case main e of Inl err \<Rightarrow> [] | Inr r \<Rightarrow> consoleMarkdown r)"

definition file_text :: "env \<Rightarrow> string" where
  "file_text e = (case report_file (script e) of None \<Rightarrow> [] | Some (path, content) \<Rightarrow> content)"

text \<open>A JSON value that is neither an array nor an object.\<close>

fun primitive :: "json \<Rightarrow> bool" where
  "primitive (JArr xs) = False"
| "primitive (JObj kvs) = False"
| "primitive _ = True"

text \<open>
  An entry of a hardening scan that \<^verbatim>\<open>summarizeDockleFindings\<close> does not count (it is
  falsy or has no truthy \<^verbatim>\<open>level\<close>), and an item of a top-level array that contributes
  no count: neither the item nor any entry of its \<^verbatim>\<open>details\<close> array is counted.
\<close>

definition level_free :: "json \<Rightarrow> bool" where
  "level_free d = (\<not> (ToBoolean d \<and> truthy (Get d ''level'')))"

definition finding_free :: "json \<Rightarrow> bool" where
  "finding_free item =
     (level_free item \<and>
      (case array_of (Get item ''details'') of
         None \<Rightarrow> True
       | Some ds \<Rightarrow> list_all level_free ds))"

section \<open>Concrete runs\<close>

text \<open>An artifact that was read and parsed, and one whose file is absent.\<close>

definition parsed_artifact :: "string \<Rightarrow> json \<Rightarrow> artifact" where
  "parsed_artifact f v =
     \<lparr>name = f, fullPath = ''artifacts/'' @ f, found = True, parsed = True,
      data = Some v, error = None\<rparr>"

definition missing_artifact :: "string \<Rightarrow> artifact" where
  "missing_artifact f =
     \<lparr>name = f, fullPath = ''artifacts/'' @ f, found = False, parsed = False,
      data = None, error = Some ''File not found''\<rparr>"

text \<open>
  A run over a directory given as a list of files with their texts; the texts are parsed
  by a table of the JSON texts used below.
\<close>

definition no_results :: string where
  "no_results = ''{'' @ [CHR 0x22] @ ''Results'' @ [CHR 0x22] @ '':[]}''"

definition no_details :: string where
  "no_details = ''{'' @ [CHR 0x22] @ ''details'' @ [CHR 0x22] @ '':[]}''"

definition hostile_level :: string where
  "hostile_level =
     ''{'' @ [CHR 0x22] @ ''level'' @ [CHR 0x22] @ '':{'' @ [CHR 0x22] @ ''toString'' @
     [CHR 0x22] @ '':null}}''"

text \<open>
  The texts \<^verbatim>\<open>{"error":"scan failed"}\<close> and \<^verbatim>\<open>[{"level":"a|b\nc"}]\<close>; in the second, the
  JSON escape \<^verbatim>\<open>\n\<close> stands for a line feed in the parsed string.
\<close>

definition scan_failed :: string where
  "scan_failed =
     ''{'' @ [CHR 0x22] @ ''error'' @ [CHR 0x22] @ '':'' @ [CHR 0x22] @ ''scan failed'' @
     [CHR 0x22] @ ''}''"

definition line_break_level :: string where
  "line_break_level =
     ''[{'' @ [CHR 0x22] @ ''level'' @ [CHR 0x22] @ '':'' @ [CHR 0x22] @ ''a|b'' @
     [CHR 0x5C] @ ''nc'' @ [CHR 0x22] @ ''}]''"

definition parse_table :: "string \<Rightarrow> string + json" where
  "parse_table s =
     (if s = ''[]'' then Inr (JArr [])
      else if s = ''{}'' then Inr (JObj [])
      else if s = no_results then Inr (JObj [(''Results'', JArr [])])
      else if s = no_details then Inr (JObj [(''details'', JArr [])])
      else if s = ''5'' then Inr (JNum 5)
      else if s = hostile_level then Inr (JObj [(''level'', JObj [(''toString'', JNull)])])
      else if s = scan_failed then Inr (JObj [(''error'', JStr ''scan failed'')])
      else if s = line_break_level
        then Inr (JArr [JObj [(''level'', JStr (''a|b'' @ [CHR 0x0A] @ ''c''))]])
      else Inl ''Unexpected token'')"

text \<open>
  The engine of the concrete runs. Their texts are ASCII and their arrays are not nested,
  so neither parameter decides any of their results.
\<close>

definition plain_engine :: js_engine where
  "plain_engine = \<lparr>unicode_upper = (\<lambda>s. s), stack_depth = 1000\<rparr>"

definition run_on ::
  "(string \<times> (io_error + string)) list \<Rightarrow> (string \<Rightarrow> string \<Rightarrow> io_error option) \<Rightarrow> env" where
  "run_on files write =
     \<lparr>engine = plain_engine,
      ARTIFACT_DIR = ''artifacts'',
      path_join = (\<lambda>d f. d @ ''/'' @ f),
      now_ISO = ''2024-01-01T00:00:00.000Z'',
      process_env = (\<lambda>x. None),
      mkdir = (\<lambda>d. None),
      readFile = (\<lambda>p. case map_of files p of
                         None \<Rightarrow> Inl (IOError ''ENOENT'' ''no such file or directory'')
                       | Some r \<Rightarrow> r),
      JSON_parse = parse_table,
      writeFile = write\<rparr>"

definition clean_files :: "(string \<times> (io_error + string)) list" where
  "clean_files =
     [(''artifacts/gitleaks.json'', Inr ''[]''),
      (''artifacts/trivy-fs.json'', Inr no_results),
      (''artifacts/trivy-image.json'', Inr no_results),
      (''artifacts/dockle.json'', Inr no_details),
      (''artifacts/sbom.json'', Inr ''{}'')]"

definition write_ok :: "string \<Rightarrow> string \<Rightarrow> io_error option" where
  "write_ok p c = None"

definition write_denied :: "string \<Rightarrow> string \<Rightarrow> io_error option" where
  "write_denied p c = Some (IOError ''EACCES'' ''permission denied'')"

text \<open>
  A vulnerability scan with one result and three entries: one of severity
  \<^verbatim>\<open>"critical"\<close>, a number and \<^verbatim>\<open>null\<close>; and its summary.
\<close>

definition critical_scan :: json where
  "critical_scan =
     JObj [(''Results'',
            JArr [JObj [(''Vulnerabilities'',
                         JArr [JObj [(''Severity'', JStr ''critical'')], JNum 4, JNull])]])]"

definition critical_summary :: trivy_summary where
  "critical_summary =
     \<lparr>total = 3,
      counts = [(''CRITICAL'', 1), (''HIGH'', 0), (''MEDIUM'', 0), (''LOW'', 0), (''UNKNOWN'', 2)]\<rparr>"

text \<open>
  A directory whose secret scan cannot be read (permission denied) and whose other files
  are absent; and the clean directory with a hardening scan that is the number \<open>5\<close>.
\<close>

definition denied_files :: "(string \<times> (io_error + string)) list" where
  "denied_files =
     [(''artifacts/gitleaks.json'', Inl (IOError ''EACCES'' ''permission denied''))]"

definition numeric_dockle_files :: "(string \<times> (io_error + string)) list" where
  "numeric_dockle_files =
     [(''artifacts/gitleaks.json'', Inr ''[]''),
      (''artifacts/trivy-fs.json'', Inr no_results),
      (''artifacts/trivy-image.json'', Inr no_results),
      (''artifacts/dockle.json'', Inr ''5''),
      (''artifacts/sbom.json'', Inr ''{}'')]"

text \<open>
  The clean directory with a hardening scan whose \<^verbatim>\<open>level\<close> is an object with an own
  \<^verbatim>\<open>toString\<close> property: converting it to a string throws.
\<close>

definition hostile_files :: "(string \<times> (io_error + string)) list" where
  "hostile_files =
     [(''artifacts/gitleaks.json'', Inr ''[]''),
      (''artifacts/trivy-fs.json'', Inr no_results),
      (''artifacts/trivy-image.json'', Inr no_results),
      (''artifacts/dockle.json'', Inr hostile_level),
      (''artifacts/sbom.json'', Inr ''{}'')]"

text \<open>
  The clean directory with another hardening scan: the error report
  \<^verbatim>\<open>{"error":"scan failed"}\<close>, and a finding whose level holds a \<open>|\<close> and a line feed.
\<close>

definition with_dockle :: "string \<Rightarrow> (string \<times> (io_error + string)) list" where
  "with_dockle text =
     [(''artifacts/gitleaks.json'', Inr ''[]''),
      (''artifacts/trivy-fs.json'', Inr no_results),
      (''artifacts/trivy-image.json'', Inr no_results),
      (''artifacts/dockle.json'', Inr text),
      (''artifacts/sbom.json'', Inr ''{}'')]"

definition scan_failed_run :: env where
  "scan_failed_run = run_on (with_dockle scan_failed) write_ok"

definition line_break_run :: env where
  "line_break_run = run_on (with_dockle line_break_level) write_ok"

text \<open>
  The final verdicts of that last run, given the details of SEC-06, and the nine lines
  that its rendered table has, from the header line to the line of SEC-06.
\<close>

definition line_break_rows :: "string \<Rightarrow> string list" where
  "line_break_rows sec06 =
     [''| Control | Status | Details |'',
      ''|---------|--------|---------|'',
      ''| SEC-01 | PASS | No secrets detected by Gitleaks (0 findings) |'',
      ''| SEC-02 | PASS | trivy-fs.json and trivy-image.json present and valid. '' @
        ''Trivy FS: total 0, CRITICAL: 0, HIGH: 0, MEDIUM: 0, LOW: 0, UNKNOWN: 0; '' @
        ''Trivy Image: total 0, CRITICAL: 0, HIGH: 0, MEDIUM: 0, LOW: 0, UNKNOWN: 0 |'',
      ''| SEC-03 | PASS | Dockle scan clean (A'' @ [CHR 0x5C] @ ''|B'',
      ''C: 1) |'',
      ''| SEC-04 | PASS | No CRITICAL vulnerabilities in Trivy scans. '' @
        ''Trivy FS: total 0, CRITICAL: 0, HIGH: 0, MEDIUM: 0, LOW: 0, UNKNOWN: 0; '' @
        ''Trivy Image: total 0, CRITICAL: 0, HIGH: 0, MEDIUM: 0, LOW: 0, UNKNOWN: 0 |'',
      ''| SEC-05 | PASS | sbom.json present and valid (SBOM generated) |'',
      ''| SEC-06 | PASS | '' @ sec06 @ '' |'']"

definition line_break_verdicts :: "string \<Rightarrow> verdict list" where
  "line_break_verdicts sec06 =
  [\<lparr>id' = ''SEC-01'', status = PASS, details = ''No secrets detected by Gitleaks (0 findings)''\<rparr>,
   \<lparr>id' = ''SEC-02'', status = PASS, details = ''trivy-fs.json and trivy-image.json present and valid. '' @
        ''Trivy FS: total 0, CRITICAL: 0, HIGH: 0, MEDIUM: 0, LOW: 0, UNKNOWN: 0; '' @
        ''Trivy Image: total 0, CRITICAL: 0, HIGH: 0, MEDIUM: 0, LOW: 0, UNKNOWN: 0''\<rparr>,
   \<lparr>id' = ''SEC-03'', status = PASS, details = ''Dockle scan clean (A|B'' @ [CHR 0x0A] @ ''C: 1)''\<rparr>,
   \<lparr>id' = ''SEC-04'', status = PASS, details = ''No CRITICAL vulnerabilities in Trivy scans. '' @
        ''Trivy FS: total 0, CRITICAL: 0, HIGH: 0, MEDIUM: 0, LOW: 0, UNKNOWN: 0; '' @
        ''Trivy Image: total 0, CRITICAL: 0, HIGH: 0, MEDIUM: 0, LOW: 0, UNKNOWN: 0''\<rparr>,
   \<lparr>id' = ''SEC-05'', status = PASS, details = ''sbom.json present and valid (SBOM generated)''\<rparr>,
   \<lparr>id' = ''SEC-06'', status = PASS, details = sec06\<rparr>]"

section \<open>Properties of the vulnerability summarizer\<close>

lemma array_of_Get_Some:
  "array_of (Get d k) = Some xs \<longleftrightarrow> (\<exists>kvs. d = JObj kvs \<and> map_of kvs k = Some (JArr xs))"
proof (cases d)
  case (JObj kvs)
  then show ?thesis by (cases "map_of kvs k" rule: array_of.cases) auto
qed simp_all

lemma summarize_Some:
  assumes "summarizeTrivyVulns rt d = Inr (Some s)"
  shows "\<exists>results. array_of (Get d ''Results'') = Some results \<and>
     count_results rt
       [(''CRITICAL'', 0), (''HIGH'', 0), (''MEDIUM'', 0), (''LOW'', 0), (''UNKNOWN'', 0)]
       results = Inr (counts s) \<and>
     total s = foldl (\<lambda>acc sev. acc + count_or_0 (counts s) sev) 0 TRIVY_SEVERITIES"
proof (cases "array_of (Get d ''Results'')")
  case None
  with assms show ?thesis by (simp add: summarizeTrivyVulns_def split: if_splits)
next
  case (Some results)
  show ?thesis
  proof (cases "count_results rt
      [(''CRITICAL'', 0), (''HIGH'', 0), (''MEDIUM'', 0), (''LOW'', 0), (''UNKNOWN'', 0)] results")
    case (Inl e)
    with assms Some show ?thesis by (simp add: summarizeTrivyVulns_def split: if_splits)
  next
    case (Inr cs)
    with assms Some
    have "s = \<lparr>total = foldl (\<lambda>acc sev. acc + count_or_0 cs sev) 0 TRIVY_SEVERITIES,
               counts = cs\<rparr>"
      by (simp add: summarizeTrivyVulns_def split: if_splits)
    with Some Inr show ?thesis by simp
  qed
qed

text \<open>
  C5. Whenever the vulnerability summarizer produces a summary, its \<open>total\<close> is the sum of
  the five per-severity counts; and an input that is not an object with an array-valued
  \<^verbatim>\<open>Results\<close> field yields no summary (not a zero summary).
\<close>

theorem trivy_total_is_sum_of_counts:
  "(summarizeTrivyVulns rt d = Inr (Some s) \<longrightarrow>
      total s = count_or_0 (counts s) ''CRITICAL'' + count_or_0 (counts s) ''HIGH'' +
                count_or_0 (counts s) ''MEDIUM'' + count_or_0 (counts s) ''LOW'' +
                count_or_0 (counts s) ''UNKNOWN'') \<and>
   ((\<nexists>kvs results. d = JObj kvs \<and> map_of kvs ''Results'' = Some (JArr results)) \<longrightarrow>
      summarizeTrivyVulns rt d = Inr None)"
proof (intro conjI impI)
  assume "summarizeTrivyVulns rt d = Inr (Some s)"
  then have "total s = foldl (\<lambda>acc sev. acc + count_or_0 (counts s) sev) 0 TRIVY_SEVERITIES"
    using summarize_Some by blast
  then show "total s = count_or_0 (counts s) ''CRITICAL'' + count_or_0 (counts s) ''HIGH'' +
                count_or_0 (counts s) ''MEDIUM'' + count_or_0 (counts s) ''LOW'' +
                count_or_0 (counts s) ''UNKNOWN''"
    by (simp add: TRIVY_SEVERITIES_def)
next
  assume a: "\<nexists>kvs results. d = JObj kvs \<and> map_of kvs ''Results'' = Some (JArr results)"
  have "array_of (Get d ''Results'') = None"
  proof (cases "array_of (Get d ''Results'')")
    case (Some xs)
    then show ?thesis using a array_of_Get_Some[of d "''Results''" xs] by blast
  qed simp
  then show "summarizeTrivyVulns rt d = Inr None"
    by (simp add: summarizeTrivyVulns_def)
qed

theorem trivy_total_is_sum_of_counts_witness:
  "summarizeTrivyVulns plain_engine critical_scan = Inr (Some critical_summary) \<and>
   total critical_summary =
     count_or_0 (counts critical_summary) ''CRITICAL'' +
     count_or_0 (counts critical_summary) ''HIGH'' +
     count_or_0 (counts critical_summary) ''MEDIUM'' +
     count_or_0 (counts critical_summary) ''LOW'' +
     count_or_0 (counts critical_summary) ''UNKNOWN'' \<and>
   summarizeTrivyVulns plain_engine (JArr []) = Inr None"
proof -
  have a: "summarizeTrivyVulns plain_engine critical_scan = Inr (Some critical_summary)"
    by code_simp
  have b: "\<nexists>kvs results. JArr [] = JObj kvs \<and> map_of kvs ''Results'' = Some (JArr results)"
    by simp
  from a b trivy_total_is_sum_of_counts [of plain_engine critical_scan critical_summary]
    trivy_total_is_sum_of_counts [of plain_engine "JArr []" critical_summary]
  show ?thesis by blast
qed

section \<open>Case-insensitive severity labels\<close>

text \<open>
  The two engine parameters at work: an ASCII spelling is upper-cased the same by every
  engine, and an array nested deeper than the stack allows makes the conversion throw.
\<close>

lemma toUpperCase_ascii: "list_all is_ascii s \<Longrightarrow> toUpperCase rt s = map to_upper s"
  by (simp add: toUpperCase_def)

lemma toUpperCase_critical: "toUpperCase rt ''critical'' = ''CRITICAL''"
  by (simp add: toUpperCase_def)

lemma nested_array_exhausts_stack:
  "ToString 1 (JArr [JArr xs]) = Inl (RangeError ''Maximum call stack size exceeded'')"
  by simp











section \<open>SEC-01 on a numeric total\<close>

lemma infer_total:
  assumes "array_of (map_of kvs ''findings'') = None"
    and "array_of (map_of kvs ''Leaks'') = None"
    and "array_of (map_of kvs ''leaks'') = None"
    and "array_of (map_of kvs ''results'') = None"
    and "map_of kvs ''total'' = Some (JNum n)"
  shows "inferGitleaksFindingCount (JObj kvs) = \<lparr>count = Some n, count_error = None\<rparr>"
  using assms by (simp add: inferGitleaksFindingCount_def counted_def)

text \<open>
  C8. When the secret artifact is found, is valid JSON and is an object with a numeric
  \<open>total\<close> and none of the four array fields, SEC-01 passes with the "0 findings" detail
  for every total that is not greater than \<open>0\<close>, negative totals included; it fails exactly
  when the total is greater than \<open>0\<close>.
\<close>

theorem sec01_nonpositive_total_passes:
  assumes "found a" and "parsed a" and "data a = Some (JObj kvs)"
    and "array_of (map_of kvs ''findings'') = None"
    and "array_of (map_of kvs ''Leaks'') = None"
    and "array_of (map_of kvs ''leaks'') = None"
    and "array_of (map_of kvs ''results'') = None"
    and "map_of kvs ''total'' = Some (JNum n)"
  shows "(n \<le> 0 \<longrightarrow>
            evaluateSec01 a =
              \<lparr>id' = ''SEC-01'', status = PASS,
               details = ''No secrets detected by Gitleaks (0 findings)''\<rparr>) \<and>
         (0 < n \<longrightarrow> status (evaluateSec01 a) = FAIL)"
proof -
  have "inferGitleaksFindingCount (data_value a) = \<lparr>count = Some n, count_error = None\<rparr>"
    using assms(3) infer_total [OF assms(4-8)] by (simp add: data_value_def)
  with assms(1,2) show ?thesis
    by (simp add: evaluateSec01_def Let_def)
qed

theorem sec01_nonpositive_total_passes_witness:
  "evaluateSec01 (parsed_artifact gitleaks_file (JObj [(''total'', JNum (- 3))])) =
     \<lparr>id' = ''SEC-01'', status = PASS,
      details = ''No secrets detected by Gitleaks (0 findings)''\<rparr> \<and>
   status (evaluateSec01 (parsed_artifact gitleaks_file (JObj [(''total'', JNum 2)]))) = FAIL"
proof -
  let ?a = "parsed_artifact gitleaks_file (JObj [(''total'', JNum (- 3))])"
  let ?b = "parsed_artifact gitleaks_file (JObj [(''total'', JNum 2)])"
  have a: "found ?a" "parsed ?a" "data ?a = Some (JObj [(''total'', JNum (- 3))])"
    by (simp_all add: parsed_artifact_def)
  have b: "found ?b" "parsed ?b" "data ?b = Some (JObj [(''total'', JNum 2)])"
    by (simp_all add: parsed_artifact_def)
  have A: "evaluateSec01 ?a =
     \<lparr>id' = ''SEC-01'', status = PASS,
      details = ''No secrets detected by Gitleaks (0 findings)''\<rparr>"
    using sec01_nonpositive_total_passes [OF a, of "- 3"] by simp
  have B: "status (evaluateSec01 ?b) = FAIL"
    using sec01_nonpositive_total_passes [OF b, of 2] by simp
  from A B show ?thesis by (intro conjI)
qed

section \<open>SEC-03 and the three worst levels\<close>

text \<open>
  C10. With a hardening summary (and the artifact found and parsed), SEC-03 fails if and
  only if the counts hold a positive count under \<open>FATAL\<close>, \<open>ERROR\<close> or \<open>WARN\<close>, or under the
  key \<open>FATL\<close> when \<open>FATAL\<close> is absent or zero. Counts under any other key never make it
  fail: two summaries that agree on these four keys get the same status.
\<close>

theorem sec03_fails_iff_worst_levels:
  assumes "found a" and "parsed a"
  shows "(status (evaluateSec03 a (Some s)) = FAIL \<longleftrightarrow>
            0 < count_or_0 (dockle_counts s) ''FATAL'' \<or>
            (count_or_0 (dockle_counts s) ''FATAL'' = 0 \<and>
             0 < count_or_0 (dockle_counts s) ''FATL'') \<or>
            0 < count_or_0 (dockle_counts s) ''ERROR'' \<or>
            0 < count_or_0 (dockle_counts s) ''WARN'') \<and>
         (count_or_0 (dockle_counts s') ''FATAL'' = count_or_0 (dockle_counts s) ''FATAL'' \<and>
          count_or_0 (dockle_counts s') ''FATL'' = count_or_0 (dockle_counts s) ''FATL'' \<and>
          count_or_0 (dockle_counts s') ''ERROR'' = count_or_0 (dockle_counts s) ''ERROR'' \<and>
          count_or_0 (dockle_counts s') ''WARN'' = count_or_0 (dockle_counts s) ''WARN'' \<longrightarrow>
          status (evaluateSec03 a (Some s')) = status (evaluateSec03 a (Some s)))"
proof -
  have st: "status (evaluateSec03 a (Some t)) =
      (if 0 < js_or (count_or_0 (dockle_counts t) ''FATAL'')
                (js_or (count_or_0 (dockle_counts t) ''FATL'') 0) \<or>
          0 < js_or (count_or_0 (dockle_counts t) ''ERROR'') 0 \<or>
          0 < js_or (count_or_0 (dockle_counts t) ''WARN'') 0
       then FAIL else PASS)" for t
    using assms by (simp add: evaluateSec03_def Let_def)
  show ?thesis
    unfolding st by (auto simp: js_or_def)
qed

theorem sec03_fails_iff_worst_levels_witness:
  "status (evaluateSec03 (parsed_artifact dockle_file (JArr []))
             (Some \<lparr>dockle_counts = [(''FATL'', 2)]\<rparr>)) = FAIL \<and>
   status (evaluateSec03 (parsed_artifact dockle_file (JArr []))
             (Some \<lparr>dockle_counts = [(''CRITICAL'', 2), (''INFO'', 1)]\<rparr>)) = PASS \<and>
   status (evaluateSec03 (parsed_artifact dockle_file (JArr []))
             (Some \<lparr>dockle_counts = []\<rparr>)) = PASS"
proof -
  let ?a = "parsed_artifact dockle_file (JArr [])"
  have a: "found ?a" "parsed ?a" by (simp_all add: parsed_artifact_def)
  have c1: "count_or_0 [(''FATL'', 2)] ''FATAL'' = 0" "count_or_0 [(''FATL'', 2)] ''FATL'' = 2"
    by (simp_all add: count_or_0_def)
  have c2: "count_or_0 [(''CRITICAL'', 2), (''INFO'', 1)] k = count_or_0 [] k"
    if "k \<in> {''FATAL'', ''FATL'', ''ERROR'', ''WARN''}" for k
    using that by (auto simp: count_or_0_def)
  have c3: "count_or_0 [] k = 0" for k by (simp add: count_or_0_def)
  note T = sec03_fails_iff_worst_levels [OF a]
  have A: "status (evaluateSec03 ?a (Some \<lparr>dockle_counts = [(''FATL'', 2)]\<rparr>)) = FAIL"
    using T [of "\<lparr>dockle_counts = [(''FATL'', 2)]\<rparr>", THEN conjunct1] c1 by simp
  have C: "status (evaluateSec03 ?a (Some \<lparr>dockle_counts = []\<rparr>)) = PASS"
    using T [of "\<lparr>dockle_counts = []\<rparr>", THEN conjunct1] c3
    by (cases "status (evaluateSec03 ?a (Some \<lparr>dockle_counts = []\<rparr>))") simp_all
  have "status (evaluateSec03 ?a (Some \<lparr>dockle_counts = [(''CRITICAL'', 2), (''INFO'', 1)]\<rparr>)) =
        status (evaluateSec03 ?a (Some \<lparr>dockle_counts = []\<rparr>))"
    using T [of "\<lparr>dockle_counts = []\<rparr>" "\<lparr>dockle_counts = [(''CRITICAL'', 2), (''INFO'', 1)]\<rparr>",
              THEN conjunct2] c2
    by simp
  with C have B: "status (evaluateSec03 ?a
      (Some \<lparr>dockle_counts = [(''CRITICAL'', 2), (''INFO'', 1)]\<rparr>)) = PASS"
    by simp
  from A B C show ?thesis by (intro conjI)
qed

section \<open>The artifact reader\<close>

text \<open>
  C9. The reader reports \<open>found = false\<close> only when the read fails with \<open>ENOENT\<close>. Any
  other read failure gives \<open>found = true\<close>, \<open>parsed = false\<close> and a "Read error" message,
  so every control that consumes the artifact fails as for a present but invalid file:
  SEC-01, SEC-02, SEC-03 and SEC-05 with the "is not valid JSON" detail, SEC-04 with its
  "missing or invalid" detail.
\<close>

theorem read_error_is_present_but_invalid:
  "(\<not> found (readJsonArtifact e f) \<longleftrightarrow>
      (\<exists>err. readFile e (path_join e (ARTIFACT_DIR e) f) = Inl err \<and> code err = ''ENOENT'')) \<and>
   (readFile e (path_join e (ARTIFACT_DIR e) f) = Inl err \<and> code err \<noteq> ''ENOENT'' \<longrightarrow>
      readJsonArtifact e f =
        \<lparr>name = f, fullPath = path_join e (ARTIFACT_DIR e) f, found = True, parsed = False,
         data = None, error = Some (''Read error: '' @ message err)\<rparr> \<and>
      evaluateSec01 (readJsonArtifact e f) =
        \<lparr>id' = ''SEC-01'', status = FAIL,
         details = ''gitleaks.json is not valid JSON (Read error: '' @ message err @ '')''\<rparr> \<and>
      evaluateSec03 (readJsonArtifact e f) ds =
        \<lparr>id' = ''SEC-03'', status = FAIL,
         details = ''dockle.json is not valid JSON (Read error: '' @ message err @ '')''\<rparr> \<and>
      evaluateSec05 (readJsonArtifact e f) =
        \<lparr>id' = ''SEC-05'', status = FAIL,
         details = ''sbom.json is not valid JSON (Read error: '' @ message err @ '')''\<rparr> \<and>
      coverage_issue trivyFs_file (readJsonArtifact e f) =
        [''trivy-fs.json is not valid JSON (Read error: '' @ message err @ '')''] \<and>
      coverage_issue trivyImage_file (readJsonArtifact e f) =
        [''trivy-image.json is not valid JSON (Read error: '' @ message err @ '')''] \<and>
      status (evaluateSec02 (readJsonArtifact e f) b s1 s2) = FAIL \<and>
      status (evaluateSec02 b (readJsonArtifact e f) s1 s2) = FAIL \<and>
      status (evaluateSec04 (readJsonArtifact e f) b s1 s2) = FAIL \<and>
      status (evaluateSec04 b (readJsonArtifact e f) s1 s2) = FAIL \<and>
      evaluateSec04 (readJsonArtifact e f) (readJsonArtifact e f) s1 s2 =
        \<lparr>id' = ''SEC-04'', status = FAIL,
         details = ''Trivy FS scan missing or invalid; Trivy image scan missing or invalid''\<rparr>)"
proof (intro conjI impI)
  show "\<not> found (readJsonArtifact e f) \<longleftrightarrow>
      (\<exists>err. readFile e (path_join e (ARTIFACT_DIR e) f) = Inl err \<and> code err = ''ENOENT'')"
    by (cases "readFile e (path_join e (ARTIFACT_DIR e) f)")
       (simp_all add: readJsonArtifact_def Let_def split: sum.splits)
next
  assume "readFile e (path_join e (ARTIFACT_DIR e) f) = Inl err \<and> code err \<noteq> ''ENOENT''"
  then have r: "readJsonArtifact e f =
        \<lparr>name = f, fullPath = path_join e (ARTIFACT_DIR e) f, found = True, parsed = False,
         data = None, error = Some (''Read error: '' @ message err)\<rparr>"
    by (simp add: readJsonArtifact_def Let_def)
  show "readJsonArtifact e f =
        \<lparr>name = f, fullPath = path_join e (ARTIFACT_DIR e) f, found = True, parsed = False,
         data = None, error = Some (''Read error: '' @ message err)\<rparr>"
    by (fact r)
  show "evaluateSec01 (readJsonArtifact e f) =
        \<lparr>id' = ''SEC-01'', status = FAIL,
         details = ''gitleaks.json is not valid JSON (Read error: '' @ message err @ '')''\<rparr>"
    by (simp add: r evaluateSec01_def gitleaks_file_def string_or_null_def)
  show "evaluateSec03 (readJsonArtifact e f) ds =
        \<lparr>id' = ''SEC-03'', status = FAIL,
         details = ''dockle.json is not valid JSON (Read error: '' @ message err @ '')''\<rparr>"
    by (simp add: r evaluateSec03_def dockle_file_def string_or_null_def)
  show "evaluateSec05 (readJsonArtifact e f) =
        \<lparr>id' = ''SEC-05'', status = FAIL,
         details = ''sbom.json is not valid JSON (Read error: '' @ message err @ '')''\<rparr>"
    by (simp add: r evaluateSec05_def sbom_file_def string_or_null_def)
  show c1: "coverage_issue trivyFs_file (readJsonArtifact e f) =
        [''trivy-fs.json is not valid JSON (Read error: '' @ message err @ '')'']"
    by (simp add: r coverage_issue_def trivyFs_file_def string_or_null_def)
  show c2: "coverage_issue trivyImage_file (readJsonArtifact e f) =
        [''trivy-image.json is not valid JSON (Read error: '' @ message err @ '')'']"
    by (simp add: r coverage_issue_def trivyImage_file_def string_or_null_def)
  show "status (evaluateSec02 (readJsonArtifact e f) b s1 s2) = FAIL"
    by (simp add: evaluateSec02_def c1 Let_def)
  show "status (evaluateSec02 b (readJsonArtifact e f) s1 s2) = FAIL"
    by (simp add: evaluateSec02_def c2 Let_def)
  show "status (evaluateSec04 (readJsonArtifact e f) b s1 s2) = FAIL"
    by (simp add: evaluateSec04_def r Let_def)
  show "status (evaluateSec04 b (readJsonArtifact e f) s1 s2) = FAIL"
    by (simp add: evaluateSec04_def r Let_def)
  show "evaluateSec04 (readJsonArtifact e f) (readJsonArtifact e f) s1 s2 =
        \<lparr>id' = ''SEC-04'', status = FAIL,
         details = ''Trivy FS scan missing or invalid; Trivy image scan missing or invalid''\<rparr>"
    by (simp add: evaluateSec04_def r Let_def)
qed

theorem read_error_is_present_but_invalid_witness:
  "found (readJsonArtifact (run_on denied_files write_ok) gitleaks_file) \<and>
   \<not> found (readJsonArtifact (run_on denied_files write_ok) sbom_file) \<and>
   evaluateSec01 (readJsonArtifact (run_on denied_files write_ok) gitleaks_file) =
     \<lparr>id' = ''SEC-01'', status = FAIL,
      details = ''gitleaks.json is not valid JSON (Read error: permission denied)''\<rparr>"
proof -
  let ?e = "run_on denied_files write_ok"
  let ?err = "IOError ''EACCES'' ''permission denied''"
  have g: "readFile ?e (path_join ?e (ARTIFACT_DIR ?e) gitleaks_file) = Inl ?err \<and>
           code ?err \<noteq> ''ENOENT''"
    by (simp add: run_on_def denied_files_def gitleaks_file_def)
  have s: "\<exists>err. readFile ?e (path_join ?e (ARTIFACT_DIR ?e) sbom_file) = Inl err \<and>
                code err = ''ENOENT''"
    by (simp add: run_on_def denied_files_def sbom_file_def)
  have ng: "\<not> (\<exists>err. readFile ?e (path_join ?e (ARTIFACT_DIR ?e) gitleaks_file) = Inl err \<and>
                code err = ''ENOENT'')"
    using g by simp
  note T = read_error_is_present_but_invalid [of ?e]
  have A: "found (readJsonArtifact ?e gitleaks_file)"
    using T [of gitleaks_file, THEN conjunct1] ng by blast
  have B: "\<not> found (readJsonArtifact ?e sbom_file)"
    using T [of sbom_file, THEN conjunct1] s by blast
  have C: "evaluateSec01 (readJsonArtifact ?e gitleaks_file) =
     \<lparr>id' = ''SEC-01'', status = FAIL,
      details = ''gitleaks.json is not valid JSON (Read error: permission denied)''\<rparr>"
    using T [of gitleaks_file ?err, THEN conjunct2, THEN mp, OF g, THEN conjunct2,
        THEN conjunct1]
    by simp
  from A B C show ?thesis by (intro conjI)
qed

section \<open>Fail-closed evaluation\<close>

lemma sec01_missing: "\<not> found a \<or> \<not> parsed a \<Longrightarrow> status (evaluateSec01 a) = FAIL"
  by (auto simp: evaluateSec01_def)

lemma sec02_missing:
  assumes "\<not> found a \<or> \<not> parsed a"
  shows "status (evaluateSec02 a b s1 s2) = FAIL \<and> status (evaluateSec02 b a s1 s2) = FAIL"
proof -
  from assms have "coverage_issue f a \<noteq> []" for f
    by (auto simp: coverage_issue_def)
  then show ?thesis by (simp add: evaluateSec02_def Let_def)
qed

lemma sec03_missing: "\<not> found a \<or> \<not> parsed a \<Longrightarrow> status (evaluateSec03 a ds) = FAIL"
  by (auto simp: evaluateSec03_def)

lemma sec04_missing:
  assumes "\<not> found a \<or> \<not> parsed a"
  shows "status (evaluateSec04 a b s1 s2) = FAIL \<and> status (evaluateSec04 b a s1 s2) = FAIL"
  using assms by (auto simp: evaluateSec04_def Let_def)

lemma sec05_missing: "\<not> found a \<or> \<not> parsed a \<Longrightarrow> status (evaluateSec05 a) = FAIL"
  by (auto simp: evaluateSec05_def)

lemma infer_unknown:
  assumes "array_of (Some d) = None"
    and "array_of (Get d ''findings'') = None"
    and "array_of (Get d ''Leaks'') = None"
    and "array_of (Get d ''leaks'') = None"
    and "array_of (Get d ''results'') = None"
    and "number_of (Get d ''total'') = None"
  shows "inferGitleaksFindingCount d = unknown_structure"
  using assms by (simp add: inferGitleaksFindingCount_def)

lemma sec01_unknown:
  assumes "inferGitleaksFindingCount (data_value a) = unknown_structure"
  shows "status (evaluateSec01 a) = FAIL"
  using assms by (simp add: evaluateSec01_def Let_def unknown_structure_def)

lemma sec04_unsummarizable:
  assumes "s1 = None \<or> s2 = None"
  shows "status (evaluateSec04 a b s1 s2) = FAIL"
  using assms by (auto simp: evaluateSec04_def Let_def split: option.splits)

lemma sec03_informational:
  assumes "found a" and "parsed a"
  shows "evaluateSec03 a None =
     \<lparr>id' = ''SEC-03'', status = PASS,
      details = ''dockle.json present and valid (unable to infer finding levels; treating as informational)''\<rparr>"
  using assms by (simp add: evaluateSec03_def dockle_file_def)

lemma main_Inr:
  assumes "main e = Inr r"
  shows "\<exists>controls. evaluate_controls e = Inr controls \<and>
    allControlsForFile r =
      controls @ [\<lparr>id' = ''SEC-06'', status = PASS, details = ''Compliance report generated''\<rparr>] \<and>
    markdownContent r =
      renderMarkdown (process_env e) (allControlsForFile r)
        (computeOverallStatus (allControlsForFile r)) (now_ISO e) \<and>
    (writeSucceeded r \<longleftrightarrow> writeFile e (reportPath e) (markdownContent r) = None) \<and>
    allControlsForConsole r =
      controls @
      [if writeSucceeded r
       then \<lparr>id' = ''SEC-06'', status = PASS, details = ''Report generated at '' @ reportPath e\<rparr>
       else \<lparr>id' = ''SEC-06'', status = FAIL,
             details = ''Failed to generate report at '' @ reportPath e\<rparr>] \<and>
    finalOverallStatus r = computeOverallStatus (allControlsForConsole r) \<and>
    consoleMarkdown r =
      renderMarkdown (process_env e) (allControlsForConsole r) (finalOverallStatus r)
        (now_ISO e) \<and>
    (exitCode_set r \<longleftrightarrow> \<not> writeSucceeded r \<or> finalOverallStatus r = FAIL)"
proof (cases "evaluate_controls e")
  case (Inl err)
  with assms show ?thesis by (simp add: main_def)
next
  case (Inr controls)
  with assms show ?thesis by (auto simp: main_def Let_def)
qed

lemma main_Inl: "main e = Inl err \<longleftrightarrow> evaluate_controls e = Inl err"
  by (cases "evaluate_controls e") (simp_all add: main_def Let_def)


text \<open>
  C2, as stated, fails for SEC-03: a hardening artifact that is valid JSON of an
  unrecognized shape (here the number \<open>5\<close>) has no summary, and SEC-03 passes; the whole
  run over such a directory exits with status \<open>0\<close>.
\<close>

theorem fail_closed_counterexample:
  "summarizeDockleFindings plain_engine (JNum 5) = Inr None \<and>
   status (evaluateSec03 (parsed_artifact dockle_file (JNum 5)) None) = PASS \<and>
   exitCode (script (run_on numeric_dockle_files write_ok)) = 0"
  by code_simp

text \<open>
  C2, amended. Missing or unparseable evidence makes SEC-01 to SEC-05 fail, in whichever
  position the artifact is consumed, and a failed write makes SEC-06 fail. Evidence of
  unrecognized shape makes the two controls that count findings fail closed as well:
  SEC-01 when the secret scan has none of the recognized structures, SEC-04 when either
  vulnerability summary is unavailable. SEC-03 is the exception: with the hardening
  artifact found and parsed but no summary, it passes with the "treating as
  informational" note.
\<close>

theorem fail_closed_except_hardening_shape:
  "(\<not> found a \<or> \<not> parsed a \<longrightarrow>
      status (evaluateSec01 a) = FAIL \<and>
      status (evaluateSec02 a b s1 s2) = FAIL \<and>
      status (evaluateSec02 b a s1 s2) = FAIL \<and>
      status (evaluateSec03 a ds) = FAIL \<and>
      status (evaluateSec04 a b s1 s2) = FAIL \<and>
      status (evaluateSec04 b a s1 s2) = FAIL \<and>
      status (evaluateSec05 a) = FAIL) \<and>
   (array_of (Some (data_value a)) = None \<and>
    array_of (Get (data_value a) ''findings'') = None \<and>
    array_of (Get (data_value a) ''Leaks'') = None \<and>
    array_of (Get (data_value a) ''leaks'') = None \<and>
    array_of (Get (data_value a) ''results'') = None \<and>
    number_of (Get (data_value a) ''total'') = None \<longrightarrow>
      status (evaluateSec01 a) = FAIL) \<and>
   (s1 = None \<or> s2 = None \<longrightarrow> status (evaluateSec04 a b s1 s2) = FAIL) \<and>
   (main e = Inr r \<and> \<not> writeSucceeded r \<longrightarrow>
      status (last (allControlsForConsole r)) = FAIL \<and>
      id' (last (allControlsForConsole r)) = ''SEC-06'') \<and>
   (found a \<and> parsed a \<longrightarrow>
      evaluateSec03 a None =
        \<lparr>id' = ''SEC-03'', status = PASS,
         details = ''dockle.json present and valid (unable to infer finding levels; treating as informational)''\<rparr>)"
proof (intro conjI impI)
  assume m: "\<not> found a \<or> \<not> parsed a"
  show "status (evaluateSec01 a) = FAIL" using m by (rule sec01_missing)
  show "status (evaluateSec02 a b s1 s2) = FAIL" using sec02_missing [OF m] by blast
  show "status (evaluateSec02 b a s1 s2) = FAIL" using sec02_missing [OF m] by blast
  show "status (evaluateSec03 a ds) = FAIL" using m by (rule sec03_missing)
  show "status (evaluateSec04 a b s1 s2) = FAIL" using sec04_missing [OF m] by blast
  show "status (evaluateSec04 b a s1 s2) = FAIL" using sec04_missing [OF m] by blast
  show "status (evaluateSec05 a) = FAIL" using m by (rule sec05_missing)
next
  assume "array_of (Some (data_value a)) = None \<and>
    array_of (Get (data_value a) ''findings'') = None \<and>
    array_of (Get (data_value a) ''Leaks'') = None \<and>
    array_of (Get (data_value a) ''leaks'') = None \<and>
    array_of (Get (data_value a) ''results'') = None \<and>
    number_of (Get (data_value a) ''total'') = None"
  then have "inferGitleaksFindingCount (data_value a) = unknown_structure"
    by (intro infer_unknown) simp_all
  then show "status (evaluateSec01 a) = FAIL" by (rule sec01_unknown)
next
  assume "s1 = None \<or> s2 = None"
  then show "status (evaluateSec04 a b s1 s2) = FAIL" by (rule sec04_unsummarizable)
next
  assume w: "main e = Inr r \<and> \<not> writeSucceeded r"
  then obtain controls where
    "allControlsForConsole r =
       controls @
       [if writeSucceeded r
        then \<lparr>id' = ''SEC-06'', status = PASS, details = ''Report generated at '' @ reportPath e\<rparr>
        else \<lparr>id' = ''SEC-06'', status = FAIL,
              details = ''Failed to generate report at '' @ reportPath e\<rparr>]"
    using main_Inr [of e r] by blast
  with w have l: "last (allControlsForConsole r) =
      \<lparr>id' = ''SEC-06'', status = FAIL, details = ''Failed to generate report at '' @ reportPath e\<rparr>"
    by simp
  show "status (last (allControlsForConsole r)) = FAIL" by (simp add: l)
  show "id' (last (allControlsForConsole r)) = ''SEC-06''" by (simp add: l)
next
  assume "found a \<and> parsed a"
  then show "evaluateSec03 a None =
        \<lparr>id' = ''SEC-03'', status = PASS,
         details = ''dockle.json present and valid (unable to infer finding levels; treating as informational)''\<rparr>"
    by (intro sec03_informational) simp_all
qed


theorem fail_closed_except_hardening_shape_witness:
  "status (evaluateSec01 (missing_artifact gitleaks_file)) = FAIL \<and>
   status (evaluateSec05 (missing_artifact sbom_file)) = FAIL \<and>
   status (evaluateSec01 (parsed_artifact gitleaks_file (JObj []))) = FAIL \<and>
   status (evaluateSec04 (parsed_artifact trivyFs_file (JNum 5))
             (parsed_artifact trivyImage_file critical_scan) None (Some critical_summary)) = FAIL \<and>
   status (last (allControlsForConsole (projr (main (run_on clean_files write_denied))))) = FAIL \<and>
   status (evaluateSec03 (parsed_artifact dockle_file (JNum 5)) None) = PASS"
proof -
  let ?e = "run_on clean_files write_denied"
  let ?r = "projr (main ?e)"
  let ?g = "parsed_artifact gitleaks_file (JObj [])"
  let ?d = "parsed_artifact dockle_file (JNum 5)"
  have m1: "\<not> found (missing_artifact gitleaks_file) \<or> \<not> parsed (missing_artifact gitleaks_file)"
    by (simp add: missing_artifact_def)
  have m2: "\<not> found (missing_artifact sbom_file) \<or> \<not> parsed (missing_artifact sbom_file)"
    by (simp add: missing_artifact_def)
  have u: "array_of (Some (data_value ?g)) = None \<and>
    array_of (Get (data_value ?g) ''findings'') = None \<and>
    array_of (Get (data_value ?g) ''Leaks'') = None \<and>
    array_of (Get (data_value ?g) ''leaks'') = None \<and>
    array_of (Get (data_value ?g) ''results'') = None \<and>
    number_of (Get (data_value ?g) ''total'') = None"
    by (simp add: parsed_artifact_def data_value_def)
  have n: "(None :: trivy_summary option) = None \<or> Some critical_summary = None" by simp
  have "\<not> isl (main ?e)" by code_simp
  then have r: "main ?e = Inr ?r" by simp
  have "\<not> writeSucceeded ?r" by code_simp
  with r have w: "main ?e = Inr ?r \<and> \<not> writeSucceeded ?r" by simp
  have p: "found ?d \<and> parsed ?d" by (simp add: parsed_artifact_def)
  have A: "status (evaluateSec01 (missing_artifact gitleaks_file)) = FAIL"
    using fail_closed_except_hardening_shape [of "missing_artifact gitleaks_file"] m1 by blast
  have B: "status (evaluateSec05 (missing_artifact sbom_file)) = FAIL"
    using fail_closed_except_hardening_shape [of "missing_artifact sbom_file"] m2 by blast
  have C: "status (evaluateSec01 ?g) = FAIL"
    using fail_closed_except_hardening_shape [of ?g] u by blast
  have D: "status (evaluateSec04 (parsed_artifact trivyFs_file (JNum 5))
             (parsed_artifact trivyImage_file critical_scan) None (Some critical_summary)) = FAIL"
    using fail_closed_except_hardening_shape
      [of "parsed_artifact trivyFs_file (JNum 5)"
          "parsed_artifact trivyImage_file critical_scan" None "Some critical_summary"] n
    by blast
  have E: "status (last (allControlsForConsole ?r)) = FAIL"
    using fail_closed_except_hardening_shape [of _ _ _ _ _ ?e ?r] w by blast
  have F: "status (evaluateSec03 ?d None) = PASS"
  proof -
    have "evaluateSec03 ?d None =
        \<lparr>id' = ''SEC-03'', status = PASS,
         details = ''dockle.json present and valid (unable to infer finding levels; treating as informational)''\<rparr>"
      using fail_closed_except_hardening_shape [of ?d] p by blast
    then show ?thesis by simp
  qed
  from A B C D E F show ?thesis by (intro conjI)
qed

section \<open>The hardening summarizer: unavailable or empty\<close>

lemma bump_level_free: "level_free d \<Longrightarrow> bump_level rt cs d = Inr cs"
  by (auto simp: bump_level_def level_free_def)

lemma bump_details_free: "list_all level_free ds \<Longrightarrow> bump_details rt cs ds = Inr cs"
  by (induction ds) (simp_all add: bump_level_free)

lemma bump_items_free: "list_all finding_free items \<Longrightarrow> bump_items rt cs items = Inr cs"
proof (induction items)
  case Nil
  then show ?case by simp
next
  case (Cons item items)
  then have f: "level_free item" and rest: "bump_items rt cs items = Inr cs"
    by (simp_all add: finding_free_def)
  show ?case
  proof (cases "array_of (Get item ''details'')")
    case None
    with f rest show ?thesis by (simp add: bump_level_free)
  next
    case (Some ds)
    with Cons.prems have "list_all level_free ds" by (simp add: finding_free_def)
    with Some f rest show ?thesis by (simp add: bump_level_free bump_details_free)
  qed
qed

lemma finish_counts_Nil: "finish_counts [] = \<lparr>dockle_counts = []\<rparr>"
  by (simp add: finish_counts_def)

lemma summarize_primitive: "primitive d \<Longrightarrow> summarizeDockleFindings rt d = Inr None"
  by (cases d) (simp_all add: summarizeDockleFindings_def)

lemma summarize_array_not_None: "summarizeDockleFindings rt (JArr items) \<noteq> Inr None"
  by (simp add: summarizeDockleFindings_def split: sum.splits)

lemma summarize_object_not_None: "summarizeDockleFindings rt (JObj kvs) \<noteq> Inr None"
  by (simp add: summarizeDockleFindings_def split: sum.splits)

lemma summarize_object_free:
  assumes "\<not> truthy (map_of kvs ''level'')"
    and "case array_of (map_of kvs ''details'') of None \<Rightarrow> True | Some ds \<Rightarrow> list_all level_free ds"
  shows "summarizeDockleFindings rt (JObj kvs) = Inr (Some \<lparr>dockle_counts = []\<rparr>)"
proof -
  have "bump_object rt (JObj kvs) = Inr []"
    using assms
    by (cases "array_of (map_of kvs ''details'')")
       (simp_all add: bump_object_def bump_details_free)
  then show ?thesis
    by (simp add: summarizeDockleFindings_def finish_counts_Nil)
qed

text \<open>
  What the summarizer returns: no summary exactly for the values that are neither an
  array nor an object; the empty summary for an object or an array in which nothing is
  counted, an object with none of the recognized fields included.
\<close>

lemma summarizeDockleFindings_cases:
  "(summarizeDockleFindings rt d = Inr None \<longleftrightarrow> primitive d) \<and>
   (map_of kvs ''details'' = None \<and> map_of kvs ''level'' = None \<longrightarrow>
      summarizeDockleFindings rt (JObj kvs) = Inr (Some \<lparr>dockle_counts = []\<rparr>)) \<and>
   (\<not> truthy (map_of kvs ''level'') \<and>
    (case array_of (map_of kvs ''details'') of
       None \<Rightarrow> True
     | Some ds \<Rightarrow> list_all level_free ds) \<longrightarrow>
      summarizeDockleFindings rt (JObj kvs) = Inr (Some \<lparr>dockle_counts = []\<rparr>)) \<and>
   (list_all finding_free items \<longrightarrow>
      summarizeDockleFindings rt (JArr items) = Inr (Some \<lparr>dockle_counts = []\<rparr>))"
proof (intro conjI impI)
  show "summarizeDockleFindings rt d = Inr None \<longleftrightarrow> primitive d"
    using summarize_primitive [of d] summarize_array_not_None summarize_object_not_None
    by (cases d) auto
next
  assume "map_of kvs ''details'' = None \<and> map_of kvs ''level'' = None"
  then show "summarizeDockleFindings rt (JObj kvs) = Inr (Some \<lparr>dockle_counts = []\<rparr>)"
    by (intro summarize_object_free) simp_all
next
  assume "\<not> truthy (map_of kvs ''level'') \<and>
    (case array_of (map_of kvs ''details'') of
       None \<Rightarrow> True
     | Some ds \<Rightarrow> list_all level_free ds)"
  then show "summarizeDockleFindings rt (JObj kvs) = Inr (Some \<lparr>dockle_counts = []\<rparr>)"
    by (intro summarize_object_free) simp_all
next
  assume "list_all finding_free items"
  then have "bump_items rt [] items = Inr []" by (rule bump_items_free)
  then show "summarizeDockleFindings rt (JArr items) = Inr (Some \<lparr>dockle_counts = []\<rparr>)"
    by (simp add: summarizeDockleFindings_def finish_counts_Nil)
qed

text \<open>
  C4. The claim asks for "unavailable" when the value is an object with none of the
  recognized fields. The code does not return it: the scanner's error report
  \<^verbatim>\<open>{"error":"scan failed"}\<close> gets the empty summary, and the run reports SEC-03 as
  PASS with "Dockle scan clean (no findings)" and exits with status \<open>0\<close>, where a value
  of unrecognized shape such as \<open>5\<close> gets no summary and the "unable to infer finding
  levels" note.
\<close>

theorem unrecognized_object_reported_clean:
  "JSON_parse scan_failed_run scan_failed = Inr (JObj [(''error'', JStr ''scan failed'')]) \<and>
   summarizeDockleFindings plain_engine (JObj [(''error'', JStr ''scan failed'')]) =
     Inr (Some \<lparr>dockle_counts = []\<rparr>) \<and>
   console_verdicts scan_failed_run ! 2 =
     \<lparr>id' = ''SEC-03'', status = PASS, details = ''Dockle scan clean (no findings)''\<rparr> \<and>
   exitCode (script scan_failed_run) = 0 \<and>
   summarizeDockleFindings plain_engine (JNum 5) = Inr None \<and>
   console_verdicts (run_on numeric_dockle_files write_ok) ! 2 =
     \<lparr>id' = ''SEC-03'', status = PASS,
      details = ''dockle.json present and valid (unable to infer finding levels; treating as informational)''\<rparr>"
  by code_simp

section \<open>Table rows\<close>

lemma escapeMarkdown_Nil: "escapeMarkdown [] = []"
  by (simp add: escapeMarkdown_def)

lemma escapeMarkdown_Cons:
  "escapeMarkdown (c # cs) =
     (if c = CHR ''|'' then CHR 0x5C # CHR ''|'' # escapeMarkdown cs else c # escapeMarkdown cs)"
  by (simp add: escapeMarkdown_def)

lemma escapeMarkdown_append:
  "escapeMarkdown (xs @ ys) = escapeMarkdown xs @ escapeMarkdown ys"
  by (simp add: escapeMarkdown_def)

lemma escapeMarkdown_no_pipe: "CHR ''|'' \<notin> set xs \<Longrightarrow> escapeMarkdown xs = xs"
  by (induction xs) (auto simp: escapeMarkdown_Nil escapeMarkdown_Cons)

lemma delimiters_after_escaped: "delimiters_after p (escapeMarkdown xs) = 0"
  by (induction xs arbitrary: p) (auto simp: escapeMarkdown_Nil escapeMarkdown_Cons)

lemma delimiters_after_no_pipe: "CHR ''|'' \<notin> set xs \<Longrightarrow> delimiters_after p xs = 0"
  by (induction xs arbitrary: p) auto

lemma delimiters_after_append:
  "delimiters_after p (xs @ ys) = delimiters_after p xs + delimiters_after (last (p # xs)) ys"
  by (induction xs arbitrary: p) simp_all

lemma delimiters_after_separator:
  "delimiters_after p (xs @ '' | '' @ ys) =
     delimiters_after p xs + 1 + delimiters_after (CHR '' '') ys"
  by (simp add: delimiters_after_append)

lemma delimiters_table_row:
  assumes "CHR ''|'' \<notin> set (id' c)"
  shows "delimiters (table_row c) = 4"
proof -
  have st: "delimiters_after p (status_string (status c)) = 0" for p
    by (cases "status c") simp_all
  have e1: "delimiters_after (CHR '' '') (escapeMarkdown (details c) @ '' |'') = 1"
    by (simp add: delimiters_after_append delimiters_after_escaped)
  have e2: "delimiters_after (CHR '' '')
          (status_string (status c) @ '' | '' @ escapeMarkdown (details c) @ '' |'') = 2"
    by (subst delimiters_after_separator) (simp add: st e1)
  have e3: "delimiters_after (CHR '' '')
          (id' c @ '' | '' @ status_string (status c) @ '' | '' @
           escapeMarkdown (details c) @ '' |'') = 3"
    by (subst delimiters_after_separator)
       (simp only: e2 delimiters_after_no_pipe [OF assms])
  have "table_row c = ''| '' @ (id' c @ '' | '' @ status_string (status c) @ '' | '' @
           escapeMarkdown (details c) @ '' |'')"
    by (simp add: table_row_def)
  then have "delimiters (table_row c) =
      1 + delimiters_after (CHR '' '') (id' c @ '' | '' @ status_string (status c) @ '' | '' @
           escapeMarkdown (details c) @ '' |'')"
    by (simp add: delimiters_def)
  then show ?thesis by (simp only: e3)
qed

lemma table_row_in_report:
  "c \<in> set controls \<Longrightarrow> table_row c \<in> set (report_lines penv controls st ts)"
  by (simp add: report_lines_def Let_def)

text \<open>
  What the escaping achieves: every \<open>|\<close> of the details is written as \<open>\|\<close> in the string
  pushed for the control, and this string has four column delimiters, none of them from
  the details (the control identifier is assumed free of \<open>|\<close>, as the six identifiers of
  the script are).
\<close>

lemma table_row_escapes_pipes:
  assumes "c \<in> set controls" and "CHR ''|'' \<notin> set (id' c)"
  shows "table_row c \<in> set (report_lines penv controls st ts) \<and>
         delimiters (table_row c) = 4 \<and>
         delimiters_after p (escapeMarkdown (details c)) = 0 \<and>
         (details c = xs @ ''|'' @ ys \<longrightarrow>
            table_row c =
              ''| '' @ id' c @ '' | '' @ status_string (status c) @ '' | '' @
              escapeMarkdown xs @ [CHR 0x5C, CHR ''|''] @ escapeMarkdown ys @ '' |'') \<and>
         (CHR ''|'' \<notin> set (details c) \<longrightarrow> escapeMarkdown (details c) = details c)"
proof (intro conjI impI)
  show "table_row c \<in> set (report_lines penv controls st ts)"
    using assms(1) by (rule table_row_in_report)
  show "delimiters (table_row c) = 4"
    using assms(2) by (rule delimiters_table_row)
  show "delimiters_after p (escapeMarkdown (details c)) = 0"
    by (rule delimiters_after_escaped)
next
  assume "details c = xs @ ''|'' @ ys"
  then show "table_row c =
              ''| '' @ id' c @ '' | '' @ status_string (status c) @ '' | '' @
              escapeMarkdown xs @ [CHR 0x5C, CHR ''|''] @ escapeMarkdown ys @ '' |''"
    by (simp add: table_row_def escapeMarkdown_append escapeMarkdown_Cons escapeMarkdown_Nil)
next
  assume "CHR ''|'' \<notin> set (details c)"
  then show "escapeMarkdown (details c) = details c"
    by (rule escapeMarkdown_no_pipe)
qed

text \<open>
  The lines of the rendered document are the lines of the strings pushed, one after the
  other: a pushed string with a line feed gives several lines, and no string with a line
  feed is a line of any text.
\<close>

lemma split_lines_not_Nil: "split_lines s \<noteq> []"
  by (induction s) (auto split: list.splits)

lemma split_lines_append_line_feed:
  "split_lines (xs @ CHR 0x0A # ys) = split_lines xs @ split_lines ys"
proof (induction xs)
  case Nil
  show ?case by simp
next
  case (Cons c cs)
  obtain l ls where l: "split_lines cs = l # ls"
    using split_lines_not_Nil [of cs] by (cases "split_lines cs") auto
  show ?case
    using Cons l by simp
qed

lemma split_lines_join:
  "ls \<noteq> [] \<Longrightarrow> split_lines (join [CHR 0x0A] ls) = concat (map split_lines ls)"
proof (induction ls rule: induct_list012)
  case 1
  then show ?case by simp
next
  case (2 x)
  show ?case by simp
next
  case (3 x y zs)
  then have "split_lines (join [CHR 0x0A] (y # zs)) = concat (map split_lines (y # zs))"
    by simp
  then show ?case
    using split_lines_append_line_feed [of x "join [CHR 0x0A] (y # zs)"] by simp
qed

lemma no_line_feed_in_line: "l \<in> set (split_lines s) \<Longrightarrow> CHR 0x0A \<notin> set l"
proof (induction s arbitrary: l)
  case Nil
  then show ?case by simp
next
  case (Cons c cs)
  obtain k ks where k: "split_lines cs = k # ks"
    using split_lines_not_Nil [of cs] by (cases "split_lines cs") auto
  show ?case
  proof (cases "c = CHR 0x0A")
    case True
    with Cons show ?thesis by auto
  next
    case False
    with Cons.prems k have "l = c # k \<or> l \<in> set ks" by auto
    then show ?thesis
      using Cons.IH [of k] Cons.IH [of l] k False by auto
  qed
qed

lemma rendered_lines:
  "split_lines (renderMarkdown penv controls st ts) =
     concat (map split_lines (report_lines penv controls st ts))"
proof -
  have "report_lines penv controls st ts \<noteq> []"
    by (simp add: report_lines_def Let_def)
  then show ?thesis
    unfolding renderMarkdown_def by (rule split_lines_join)
qed

lemma line_feed_stays: "CHR 0x0A \<in> set d \<Longrightarrow> CHR 0x0A \<in> set (escapeMarkdown d)"
  by (induction d) (auto simp: escapeMarkdown_Nil escapeMarkdown_Cons)

lemma row_with_line_feed_is_no_line:
  assumes "CHR 0x0A \<in> set (details c)"
  shows "table_row c \<notin> set (split_lines t)"
proof
  assume "table_row c \<in> set (split_lines t)"
  then have "CHR 0x0A \<notin> set (table_row c)" by (rule no_line_feed_in_line)
  moreover have "CHR 0x0A \<in> set (table_row c)"
    using line_feed_stays [OF assms] by (simp add: table_row_def)
  ultimately show False by simp
qed

lemma console_text_rendered:
  assumes "main e = Inr r"
  shows "console_text e =
           renderMarkdown (process_env e) (console_verdicts e)
             (computeOverallStatus (console_verdicts e)) (now_ISO e)"
    and "writeSucceeded r \<Longrightarrow>
         file_text e =
           renderMarkdown (process_env e) (allControlsForFile r)
             (computeOverallStatus (allControlsForFile r)) (now_ISO e)"
    and "allControlsForFile r =
           butlast (console_verdicts e) @
           [\<lparr>id' = ''SEC-06'', status = PASS, details = ''Compliance report generated''\<rparr>]"
proof -
  from main_Inr [OF assms] obtain controls where
    f: "allControlsForFile r =
      controls @ [\<lparr>id' = ''SEC-06'', status = PASS, details = ''Compliance report generated''\<rparr>]"
    and mc: "markdownContent r =
      renderMarkdown (process_env e) (allControlsForFile r)
        (computeOverallStatus (allControlsForFile r)) (now_ISO e)"
    and c: "allControlsForConsole r =
      controls @
      [if writeSucceeded r
       then \<lparr>id' = ''SEC-06'', status = PASS, details = ''Report generated at '' @ reportPath e\<rparr>
       else \<lparr>id' = ''SEC-06'', status = FAIL,
             details = ''Failed to generate report at '' @ reportPath e\<rparr>]"
    and fo: "finalOverallStatus r = computeOverallStatus (allControlsForConsole r)"
    and cm: "consoleMarkdown r =
      renderMarkdown (process_env e) (allControlsForConsole r) (finalOverallStatus r)
        (now_ISO e)"
    by (elim exE conjE) (rule that; assumption)
  have cv: "console_verdicts e = allControlsForConsole r"
    using assms by (simp add: console_verdicts_def)
  show "console_text e =
           renderMarkdown (process_env e) (console_verdicts e)
             (computeOverallStatus (console_verdicts e)) (now_ISO e)"
    using assms cm fo by (simp add: console_text_def cv)
  show "allControlsForFile r =
           butlast (console_verdicts e) @
           [\<lparr>id' = ''SEC-06'', status = PASS, details = ''Compliance report generated''\<rparr>]"
    by (simp add: cv c f)
  show "file_text e =
           renderMarkdown (process_env e) (allControlsForFile r)
             (computeOverallStatus (allControlsForFile r)) (now_ISO e)"
    if "writeSucceeded r"
    using assms that mc by (simp add: file_text_def script_def)
qed

lemma line_break_console_verdicts:
  "console_verdicts line_break_run =
     line_break_verdicts ''Report generated at artifacts/compliance-report.md''"
  by code_simp

lemma line_break_table:
  "take 9 (drop 13 (concat (map split_lines
     (report_lines (\<lambda>x. None) (line_break_verdicts ''Report generated at artifacts/compliance-report.md'')
        (computeOverallStatus (line_break_verdicts ''Report generated at artifacts/compliance-report.md''))
        ''2024-01-01T00:00:00.000Z'')))) =
   line_break_rows ''Report generated at artifacts/compliance-report.md''"
  by code_simp

lemma line_break_file_table:
  "take 9 (drop 13 (concat (map split_lines
     (report_lines (\<lambda>x. None) (line_break_verdicts ''Compliance report generated'')
        (computeOverallStatus (line_break_verdicts ''Compliance report generated''))
        ''2024-01-01T00:00:00.000Z'')))) =
   line_break_rows ''Compliance report generated''"
  by code_simp

lemma line_break_delimiters:
  "map delimiters (line_break_rows ''Report generated at artifacts/compliance-report.md'') =
     [4, 4, 4, 4, 3, 1, 4, 4, 4] \<and>
   map delimiters (line_break_rows ''Compliance report generated'') = [4, 4, 4, 4, 3, 1, 4, 4, 4]"
  by code_simp

text \<open>
  C7. The claim asks that every rendered table row has the delimiters of a row of three
  columns and that the table is never malformed. The code escapes \<open>|\<close> only: a line feed
  in the details stays, and joining the lines with line feeds cuts the row of that
  control in two. For the hardening scan \<^verbatim>\<open>[{"level":"a|b\nc"}]\<close> the details of
  SEC-03 hold a \<open>|\<close> and a line feed; the string pushed for SEC-03 is not a line of the
  printed document, nor of the persisted one; instead the rendered table has two lines
  between those of SEC-02 and SEC-04, the first with three column delimiters and the
  second with one.
\<close>

theorem table_row_cut_by_line_break:
  "JSON_parse line_break_run line_break_level =
     Inr (JArr [JObj [(''level'', JStr (''a|b'' @ [CHR 0x0A] @ ''c''))]]) \<and>
   console_verdicts line_break_run ! 2 =
     \<lparr>id' = ''SEC-03'', status = PASS,
      details = ''Dockle scan clean (A|B'' @ [CHR 0x0A] @ ''C: 1)''\<rparr> \<and>
   table_row (console_verdicts line_break_run ! 2) \<notin> set (split_lines (console_text line_break_run)) \<and>
   table_row (console_verdicts line_break_run ! 2) \<notin> set (split_lines (file_text line_break_run)) \<and>
   take 9 (drop 13 (split_lines (console_text line_break_run))) =
     line_break_rows ''Report generated at artifacts/compliance-report.md'' \<and>
   take 9 (drop 13 (split_lines (file_text line_break_run))) =
     line_break_rows ''Compliance report generated'' \<and>
   map delimiters (take 9 (drop 13 (split_lines (console_text line_break_run)))) =
     [4, 4, 4, 4, 3, 1, 4, 4, 4] \<and>
   map delimiters (take 9 (drop 13 (split_lines (file_text line_break_run)))) =
     [4, 4, 4, 4, 3, 1, 4, 4, 4]"
proof -
  let ?e = "line_break_run"
  let ?r = "projr (main ?e)"
  let ?ts = "''2024-01-01T00:00:00.000Z''"
  let ?V = "line_break_verdicts ''Report generated at artifacts/compliance-report.md''"
  let ?F = "line_break_verdicts ''Compliance report generated''"
  have p: "JSON_parse ?e line_break_level =
     Inr (JArr [JObj [(''level'', JStr (''a|b'' @ [CHR 0x0A] @ ''c''))]])"
    by code_simp
  have "\<not> isl (main ?e)" by code_simp
  then have m: "main ?e = Inr ?r" by simp
  have w: "writeSucceeded ?r" by code_simp
  have pe: "process_env ?e = (\<lambda>x. None)" and ts: "now_ISO ?e = ?ts"
    by (simp_all add: line_break_run_def run_on_def)
  have v: "console_verdicts ?e ! 2 =
     \<lparr>id' = ''SEC-03'', status = PASS,
      details = ''Dockle scan clean (A|B'' @ [CHR 0x0A] @ ''C: 1)''\<rparr>"
    by (simp add: line_break_console_verdicts line_break_verdicts_def)
  have lf: "CHR 0x0A \<in> set (details (console_verdicts ?e ! 2))"
    by (simp add: v)
  have f: "allControlsForFile ?r = ?F"
    using console_text_rendered(3) [OF m]
    by (simp add: line_break_console_verdicts line_break_verdicts_def)
  have cl: "split_lines (console_text ?e) =
      concat (map split_lines (report_lines (\<lambda>x. None) ?V (computeOverallStatus ?V) ?ts))"
    using console_text_rendered(1) [OF m]
    by (simp only: rendered_lines pe ts line_break_console_verdicts)
  have fl: "split_lines (file_text ?e) =
      concat (map split_lines (report_lines (\<lambda>x. None) ?F (computeOverallStatus ?F) ?ts))"
    using console_text_rendered(2) [OF m w]
    by (simp only: rendered_lines pe ts f)
  have ct: "take 9 (drop 13 (split_lines (console_text ?e))) =
     line_break_rows ''Report generated at artifacts/compliance-report.md''"
    unfolding cl by (rule line_break_table)
  have ft: "take 9 (drop 13 (split_lines (file_text ?e))) =
     line_break_rows ''Compliance report generated''"
    unfolding fl by (rule line_break_file_table)
  show ?thesis
    using p v ct ft line_break_delimiters
      row_with_line_feed_is_no_line [OF lf, of "console_text ?e"]
      row_with_line_feed_is_no_line [OF lf, of "file_text ?e"]
    by (simp only: simp_thms)
qed

section \<open>The run and its exit status\<close>

lemma id_evaluateSec01: "id' (evaluateSec01 a) = ''SEC-01''"
  by (simp add: evaluateSec01_def Let_def split: option.splits list.splits)

lemma id_evaluateSec02: "id' (evaluateSec02 a b s1 s2) = ''SEC-02''"
  by (simp add: evaluateSec02_def Let_def)

lemma id_evaluateSec03: "id' (evaluateSec03 a ds) = ''SEC-03''"
  by (simp add: evaluateSec03_def Let_def split: option.splits)

lemma id_evaluateSec04: "id' (evaluateSec04 a b s1 s2) = ''SEC-04''"
  by (simp add: evaluateSec04_def Let_def split: option.splits)

lemma id_evaluateSec05: "id' (evaluateSec05 a) = ''SEC-05''"
  by (simp add: evaluateSec05_def)

lemma evaluate_controls_ids:
  assumes "evaluate_controls e = Inr controls"
  shows "map id' controls = [''SEC-01'', ''SEC-02'', ''SEC-03'', ''SEC-04'', ''SEC-05'']"
  using assms
  by (auto simp: evaluate_controls_def Let_def id_evaluateSec01 id_evaluateSec02
        id_evaluateSec03 id_evaluateSec04 id_evaluateSec05 split: sum.splits)

lemma computeOverallStatus_PASS:
  "computeOverallStatus controls = PASS \<longleftrightarrow> list_all (\<lambda>c. status c = PASS) controls"
  by (simp add: computeOverallStatus_def)

lemma script_Inl: "main e = Inl err \<Longrightarrow> exitCode (script e) = 1 \<and> report_file (script e) = None"
  by (simp add: script_def)

lemma script_Inr:
  "main e = Inr r \<Longrightarrow>
     exitCode (script e) = (if exitCode_set r then 1 else 0) \<and>
     report_file (script e) =
       (if writeSucceeded r then Some (reportPath e, markdownContent r) else None) \<and>
     stdout (script e) ! 1 = consoleMarkdown r"
  by (simp add: script_def)

text \<open>
  C1. The exit status is zero if and only if \<^verbatim>\<open>main\<close> completed, the write of the
  report succeeded and every final verdict, the actual SEC-06 outcome included, is PASS;
  otherwise it is \<open>1\<close>. The final verdicts are the six controls in order, and the last one
  is PASS exactly when the write succeeded.
\<close>

theorem exit_status_zero_iff:
  "(exitCode (script e) = 0 \<longleftrightarrow>
      (\<exists>r. main e = Inr r \<and>
           writeFile e (reportPath e) (markdownContent r) = None \<and>
           list_all (\<lambda>c. status c = PASS) (allControlsForConsole r))) \<and>
   (exitCode (script e) \<noteq> 0 \<longrightarrow> exitCode (script e) = 1) \<and>
   (main e = Inr r \<longrightarrow>
      map id' (allControlsForConsole r) =
        [''SEC-01'', ''SEC-02'', ''SEC-03'', ''SEC-04'', ''SEC-05'', ''SEC-06''] \<and>
      (status (last (allControlsForConsole r)) = PASS \<longleftrightarrow>
         writeFile e (reportPath e) (markdownContent r) = None))"
proof (intro conjI impI)
  show "exitCode (script e) = 0 \<longleftrightarrow>
      (\<exists>r. main e = Inr r \<and>
           writeFile e (reportPath e) (markdownContent r) = None \<and>
           list_all (\<lambda>c. status c = PASS) (allControlsForConsole r))"
  proof (cases "main e")
    case (Inl err)
    then show ?thesis using script_Inl [OF Inl] by simp
  next
    case (Inr r')
    from main_Inr [OF Inr]
    have w: "writeSucceeded r' \<longleftrightarrow> writeFile e (reportPath e) (markdownContent r') = None"
      and f: "finalOverallStatus r' = computeOverallStatus (allControlsForConsole r')"
      and x: "exitCode_set r' \<longleftrightarrow> \<not> writeSucceeded r' \<or> finalOverallStatus r' = FAIL"
      by blast+
    have "exitCode (script e) = 0 \<longleftrightarrow> \<not> exitCode_set r'"
      using script_Inr [OF Inr] by simp
    also have "\<dots> \<longleftrightarrow> writeFile e (reportPath e) (markdownContent r') = None \<and>
        list_all (\<lambda>c. status c = PASS) (allControlsForConsole r')"
      using w f x computeOverallStatus_PASS [of "allControlsForConsole r'"]
      by (cases "computeOverallStatus (allControlsForConsole r')") auto
    finally show ?thesis using Inr by simp
  qed
next
  assume "exitCode (script e) \<noteq> 0"
  then show "exitCode (script e) = 1"
    using script_Inl [of e] script_Inr [of e]
    by (cases "main e") (auto split: if_splits)
next
  assume m: "main e = Inr r"
  from main_Inr [OF m] obtain controls where c: "evaluate_controls e = Inr controls"
    and w: "writeSucceeded r \<longleftrightarrow> writeFile e (reportPath e) (markdownContent r) = None"
    and a: "allControlsForConsole r =
      controls @
      [if writeSucceeded r
       then \<lparr>id' = ''SEC-06'', status = PASS, details = ''Report generated at '' @ reportPath e\<rparr>
       else \<lparr>id' = ''SEC-06'', status = FAIL,
             details = ''Failed to generate report at '' @ reportPath e\<rparr>]"
    by (elim exE conjE) (rule that; assumption)
  show "map id' (allControlsForConsole r) =
        [''SEC-01'', ''SEC-02'', ''SEC-03'', ''SEC-04'', ''SEC-05'', ''SEC-06'']"
    using evaluate_controls_ids [OF c] by (simp add: a)
  show "status (last (allControlsForConsole r)) = PASS \<longleftrightarrow>
         writeFile e (reportPath e) (markdownContent r) = None"
    using w by (simp add: a)
qed

theorem exit_status_zero_iff_witness:
  "exitCode (script (run_on clean_files write_ok)) = 0 \<and>
   list_all (\<lambda>c. status c = PASS)
     (allControlsForConsole (projr (main (run_on clean_files write_ok)))) \<and>
   exitCode (script (run_on clean_files write_denied)) = 1 \<and>
   exitCode (script (run_on [] write_ok)) = 1 \<and>
   exitCode (script (run_on hostile_files write_ok)) = 1 \<and>
   status (last (allControlsForConsole (projr (main (run_on clean_files write_denied))))) = FAIL"
proof -
  let ?ok = "run_on clean_files write_ok"
  let ?den = "run_on clean_files write_denied"
  let ?none = "run_on [] write_ok"
  have z: "exitCode (script ?ok) = 0" by code_simp
  have "\<not> isl (main ?ok)" by code_simp
  then have r: "main ?ok = Inr (projr (main ?ok))" by simp
  from z exit_status_zero_iff [of ?ok, THEN conjunct1]
  obtain r' where "main ?ok = Inr r'"
    and "list_all (\<lambda>c. status c = PASS) (allControlsForConsole r')"
    by blast
  with r have A: "list_all (\<lambda>c. status c = PASS) (allControlsForConsole (projr (main ?ok)))"
    by simp
  have "exitCode (script ?den) \<noteq> 0" by code_simp
  then have B: "exitCode (script ?den) = 1"
    using exit_status_zero_iff [of ?den, THEN conjunct2, THEN conjunct1] by blast
  have "exitCode (script ?none) \<noteq> 0" by code_simp
  then have C: "exitCode (script ?none) = 1"
    using exit_status_zero_iff [of ?none, THEN conjunct2, THEN conjunct1] by blast
  have "exitCode (script (run_on hostile_files write_ok)) \<noteq> 0" by code_simp
  then have C': "exitCode (script (run_on hostile_files write_ok)) = 1"
    using exit_status_zero_iff [of "run_on hostile_files write_ok", THEN conjunct2,
        THEN conjunct1]
    by blast
  have "\<not> isl (main ?den)" by code_simp
  then have d: "main ?den = Inr (projr (main ?den))" by simp
  have wd: "writeFile ?den (reportPath ?den) (markdownContent (projr (main ?den))) \<noteq> None"
    by (simp add: run_on_def write_denied_def)
  have D: "status (last (allControlsForConsole (projr (main ?den)))) = FAIL"
    using exit_status_zero_iff [of ?den "projr (main ?den)", THEN conjunct2, THEN conjunct2,
        THEN mp, OF d, THEN conjunct2] wd
    by (cases "status (last (allControlsForConsole (projr (main ?den))))") simp_all
  from z A B C C' D show ?thesis by (intro conjI)
qed

section \<open>The persisted and the printed report\<close>

text \<open>
  C3. In every completed run the persisted document is rendered from the five verdicts
  followed by the tentative SEC-06 verdict, which is PASS, and this is the text the file
  holds when the write succeeds. The document printed to the console is rendered from
  the same five verdicts followed by the actual SEC-06 verdict, which is PASS if and
  only if the write succeeded; the exit status is decided from these console verdicts
  and the write outcome. A run in which \<^verbatim>\<open>main\<close> throws writes and prints no document.
\<close>

theorem persisted_report_is_tentative:
  "(main e = Inr r \<longrightarrow>
         butlast (allControlsForFile r) = butlast (allControlsForConsole r) \<and>
         last (allControlsForFile r) =
           \<lparr>id' = ''SEC-06'', status = PASS, details = ''Compliance report generated''\<rparr> \<and>
         markdownContent r =
           renderMarkdown (process_env e) (allControlsForFile r)
             (computeOverallStatus (allControlsForFile r)) (now_ISO e) \<and>
         table_row (last (allControlsForFile r)) \<in>
           set (report_lines (process_env e) (allControlsForFile r)
                  (computeOverallStatus (allControlsForFile r)) (now_ISO e)) \<and>
         report_file (script e) =
           (if writeFile e (reportPath e) (markdownContent r) = None
            then Some (reportPath e, markdownContent r) else None) \<and>
         id' (last (allControlsForConsole r)) = ''SEC-06'' \<and>
         (status (last (allControlsForConsole r)) = PASS \<longleftrightarrow>
            writeFile e (reportPath e) (markdownContent r) = None) \<and>
         consoleMarkdown r =
           renderMarkdown (process_env e) (allControlsForConsole r)
             (computeOverallStatus (allControlsForConsole r)) (now_ISO e) \<and>
         table_row (last (allControlsForConsole r)) \<in>
           set (report_lines (process_env e) (allControlsForConsole r)
                  (computeOverallStatus (allControlsForConsole r)) (now_ISO e)) \<and>
         stdout (script e) ! 1 = consoleMarkdown r \<and>
         (exitCode (script e) = 0 \<longleftrightarrow>
            writeFile e (reportPath e) (markdownContent r) = None \<and>
            computeOverallStatus (allControlsForConsole r) = PASS)) \<and>
   (main e = Inl err \<longrightarrow>
         report_file (script e) = None \<and> stdout (script e) = [] \<and> exitCode (script e) = 1)"
proof (rule conjI; rule impI)
  assume crashed: "main e = Inl err"
  then show "report_file (script e) = None \<and> stdout (script e) = [] \<and> exitCode (script e) = 1"
    by (simp add: script_def)
next
  assume assms: "main e = Inr r"
  from main_Inr [OF assms] obtain controls where
    f: "allControlsForFile r =
      controls @ [\<lparr>id' = ''SEC-06'', status = PASS, details = ''Compliance report generated''\<rparr>]"
    and mc: "markdownContent r =
      renderMarkdown (process_env e) (allControlsForFile r)
        (computeOverallStatus (allControlsForFile r)) (now_ISO e)"
    and w: "writeSucceeded r \<longleftrightarrow> writeFile e (reportPath e) (markdownContent r) = None"
    and c: "allControlsForConsole r =
      controls @
      [if writeSucceeded r
       then \<lparr>id' = ''SEC-06'', status = PASS, details = ''Report generated at '' @ reportPath e\<rparr>
       else \<lparr>id' = ''SEC-06'', status = FAIL,
             details = ''Failed to generate report at '' @ reportPath e\<rparr>]"
    and fo: "finalOverallStatus r = computeOverallStatus (allControlsForConsole r)"
    and cm: "consoleMarkdown r =
      renderMarkdown (process_env e) (allControlsForConsole r) (finalOverallStatus r)
        (now_ISO e)"
    and x: "exitCode_set r \<longleftrightarrow> \<not> writeSucceeded r \<or> finalOverallStatus r = FAIL"
    by (elim exE conjE) (rule that; assumption)
  have 1: "butlast (allControlsForFile r) = butlast (allControlsForConsole r)"
    by (simp add: f c)
  have 2: "last (allControlsForFile r) =
           \<lparr>id' = ''SEC-06'', status = PASS, details = ''Compliance report generated''\<rparr>"
    by (simp add: f)
  have 4: "table_row (last (allControlsForFile r)) \<in>
           set (report_lines (process_env e) (allControlsForFile r)
                  (computeOverallStatus (allControlsForFile r)) (now_ISO e))"
    by (rule table_row_in_report) (simp add: f)
  have 5: "report_file (script e) =
           (if writeFile e (reportPath e) (markdownContent r) = None
            then Some (reportPath e, markdownContent r) else None)"
    using script_Inr [OF assms] w by simp
  have 6: "id' (last (allControlsForConsole r)) = ''SEC-06''"
    by (simp add: c)
  have 7: "status (last (allControlsForConsole r)) = PASS \<longleftrightarrow>
            writeFile e (reportPath e) (markdownContent r) = None"
    using w by (simp add: c)
  have 8: "consoleMarkdown r =
           renderMarkdown (process_env e) (allControlsForConsole r)
             (computeOverallStatus (allControlsForConsole r)) (now_ISO e)"
    using cm fo by simp
  have 9: "table_row (last (allControlsForConsole r)) \<in>
           set (report_lines (process_env e) (allControlsForConsole r)
                  (computeOverallStatus (allControlsForConsole r)) (now_ISO e))"
    by (rule table_row_in_report) (simp add: c)
  have 10: "stdout (script e) ! 1 = consoleMarkdown r"
    using script_Inr [OF assms] by simp
  have 11: "exitCode (script e) = 0 \<longleftrightarrow>
            writeFile e (reportPath e) (markdownContent r) = None \<and>
            computeOverallStatus (allControlsForConsole r) = PASS"
    using script_Inr [OF assms] w fo x
    by (cases "computeOverallStatus (allControlsForConsole r)") auto
  from 1 2 mc 4 5 6 7 8 9 10 11
  show "butlast (allControlsForFile r) = butlast (allControlsForConsole r) \<and>
         last (allControlsForFile r) =
           \<lparr>id' = ''SEC-06'', status = PASS, details = ''Compliance report generated''\<rparr> \<and>
         markdownContent r =
           renderMarkdown (process_env e) (allControlsForFile r)
             (computeOverallStatus (allControlsForFile r)) (now_ISO e) \<and>
         table_row (last (allControlsForFile r)) \<in>
           set (report_lines (process_env e) (allControlsForFile r)
                  (computeOverallStatus (allControlsForFile r)) (now_ISO e)) \<and>
         report_file (script e) =
           (if writeFile e (reportPath e) (markdownContent r) = None
            then Some (reportPath e, markdownContent r) else None) \<and>
         id' (last (allControlsForConsole r)) = ''SEC-06'' \<and>
         (status (last (allControlsForConsole r)) = PASS \<longleftrightarrow>
            writeFile e (reportPath e) (markdownContent r) = None) \<and>
         consoleMarkdown r =
           renderMarkdown (process_env e) (allControlsForConsole r)
             (computeOverallStatus (allControlsForConsole r)) (now_ISO e) \<and>
         table_row (last (allControlsForConsole r)) \<in>
           set (report_lines (process_env e) (allControlsForConsole r)
                  (computeOverallStatus (allControlsForConsole r)) (now_ISO e)) \<and>
         stdout (script e) ! 1 = consoleMarkdown r \<and>
         (exitCode (script e) = 0 \<longleftrightarrow>
            writeFile e (reportPath e) (markdownContent r) = None \<and>
            computeOverallStatus (allControlsForConsole r) = PASS)"
    by (intro conjI)
qed

theorem persisted_report_is_tentative_witness:
  "report_file (script (run_on hostile_files write_ok)) = None \<and>
   status (last (allControlsForFile (projr (main (run_on clean_files write_denied))))) = PASS \<and>
   status (last (allControlsForConsole (projr (main (run_on clean_files write_denied))))) = FAIL \<and>
   report_file (script (run_on clean_files write_denied)) = None \<and>
   status (last (allControlsForConsole (projr (main (run_on clean_files write_ok))))) = PASS \<and>
   report_file (script (run_on clean_files write_ok)) =
     Some (''artifacts/compliance-report.md'',
           markdownContent (projr (main (run_on clean_files write_ok))))"
proof -
  let ?ok = "run_on clean_files write_ok"
  let ?den = "run_on clean_files write_denied"
  have "\<not> isl (main ?ok)" by code_simp
  then have o: "main ?ok = Inr (projr (main ?ok))" by simp
  have "\<not> isl (main ?den)" by code_simp
  then have d: "main ?den = Inr (projr (main ?den))" by simp
  have wd: "writeFile ?den (reportPath ?den) c \<noteq> None" for c
    by (simp add: run_on_def write_denied_def)
  have wo: "writeFile ?ok (reportPath ?ok) c = None" for c
    by (simp add: run_on_def write_ok_def)
  have po: "reportPath ?ok = ''artifacts/compliance-report.md''"
    by (simp add: reportPath_def run_on_def)
  let ?hostile = "run_on hostile_files write_ok"
  have "isl (main ?hostile)" by code_simp
  then have h: "main ?hostile = Inl (projl (main ?hostile))" by simp
  have H: "report_file (script ?hostile) = None"
    using persisted_report_is_tentative [of ?hostile _ "projl (main ?hostile)", THEN conjunct2,
        THEN mp, OF h]
    by simp
  note D = persisted_report_is_tentative [of ?den "projr (main ?den)", THEN conjunct1,
      THEN mp, OF d]
  note K = persisted_report_is_tentative [of ?ok "projr (main ?ok)", THEN conjunct1,
      THEN mp, OF o]
  have A: "status (last (allControlsForFile (projr (main ?den)))) = PASS"
    using D [THEN conjunct2, THEN conjunct1] by simp
  have B: "status (last (allControlsForConsole (projr (main ?den)))) = FAIL"
    using D [THEN conjunct2, THEN conjunct2, THEN conjunct2, THEN conjunct2, THEN conjunct2,
             THEN conjunct2, THEN conjunct1] wd
    by (cases "status (last (allControlsForConsole (projr (main ?den))))") simp_all
  have C: "report_file (script ?den) = None"
    using D [THEN conjunct2, THEN conjunct2, THEN conjunct2, THEN conjunct2, THEN conjunct1] wd
    by simp
  have E: "status (last (allControlsForConsole (projr (main ?ok)))) = PASS"
    using K [THEN conjunct2, THEN conjunct2, THEN conjunct2, THEN conjunct2, THEN conjunct2,
             THEN conjunct2, THEN conjunct1] wo
    by simp
  have F: "report_file (script ?ok) =
     Some (''artifacts/compliance-report.md'', markdownContent (projr (main ?ok)))"
    using K [THEN conjunct2, THEN conjunct2, THEN conjunct2, THEN conjunct2, THEN conjunct1] wo po
    by simp
  from H A B C E F show ?thesis by (intro conjI)
qed

end
